theory Spec2Isabelle
  imports Main "HOL-Library.Word"
begin

section \<open>Machine integers and time\<close>

text \<open>
  Go's \<^verbatim>\<open>time.Duration\<close> is an \<^verbatim>\<open>int64\<close> count of nanoseconds. It is modelled as an
  \<open>int\<close> with the two's complement wrap-around written out after every operation that
  can leave the 64-bit range. Go's \<^verbatim>\<open>/\<close> on signed integers truncates towards zero.
\<close>

type_synonym u64 = "64 word"
type_synonym Duration = int
type_synonym Time = int

definition i64 :: "int \<Rightarrow> int" where
  "i64 x = (x + 2 ^ 63) mod 2 ^ 64 - 2 ^ 63"

definition tdiv :: "int \<Rightarrow> int \<Rightarrow> int" where
  "tdiv a b = sgn a * sgn b * (\<bar>a\<bar> div \<bar>b\<bar>)"

definition Second :: Duration where "Second = 1000000000"
definition Minute :: Duration where "Minute = 60 * Second"

definition minDuration :: Duration where "minDuration = - (2 ^ 63)"
definition maxDuration :: Duration where "maxDuration = 2 ^ 63 - 1"

text \<open>
  \<^verbatim>\<open>time.Time\<close> is modelled as an integer count of nanoseconds. \<^verbatim>\<open>Time.Sub\<close> of the Go
  standard library returns the difference as a Duration and saturates at the largest and
  smallest Duration instead of wrapping.
\<close>

definition Time_Sub :: "Time \<Rightarrow> Time \<Rightarrow> Duration" where
  "Time_Sub t u =
     (if t - u > maxDuration then maxDuration
      else if t - u < minDuration then minDuration
      else t - u)"

section \<open>Work\<close>

text \<open>
  Modelled from the spec: the type \<^verbatim>\<open>types.Work\<close> and its methods \<^verbatim>\<open>Add\<close>, \<^verbatim>\<open>Sub\<close>,
  \<^verbatim>\<open>Div64\<close>, \<^verbatim>\<open>Mul64\<close> and \<^verbatim>\<open>Cmp\<close> are declared in package \<^verbatim>\<open>types\<close>, outside
  update.go and scratch.go. The spec describes a work value as a number of expected
  hashes, so it is a natural number here and the methods are the arithmetic of natural
  numbers, without an upper bound.
  \<^verbatim>\<open>Cmp\<close> returns -1, 0 or 1. The code subtracts only a two-hundredth or a
  two-hundred-and-fiftieth of a value from that value and divides only by 200, by 250
  and by a number of seconds that is at least 1.
\<close>

type_synonym Work = nat

definition Work_Add :: "Work \<Rightarrow> Work \<Rightarrow> Work" where
  "Work_Add w v = w + v"

definition Work_Sub :: "Work \<Rightarrow> Work \<Rightarrow> Work" where
  "Work_Sub w v = w - v"

definition Work_Div64 :: "Work \<Rightarrow> u64 \<Rightarrow> Work" where
  "Work_Div64 w v = w div unat v"

definition Work_Mul64 :: "Work \<Rightarrow> u64 \<Rightarrow> Work" where
  "Work_Mul64 w v = w * unat v"

definition Work_Cmp :: "Work \<Rightarrow> Work \<Rightarrow> int" where
  "Work_Cmp w v = (if w < v then - 1 else if w = v then 0 else 1)"

section \<open>Difficulty controller (update.go)\<close>

definition SiafundCount :: u64 where "SiafundCount = 10000"

definition BlockInterval :: Duration where "BlockInterval = 10 * Minute"

definition updateOakTotals :: "Duration \<Rightarrow> Duration \<Rightarrow> Work \<Rightarrow> Work \<Rightarrow> Duration \<times> Work" where
  "updateOakTotals oakTime newTime oakWork newWork =
     (let decayedTime = i64 (i64 (oakTime - tdiv oakTime 200) + newTime);
          decayedWork = Work_Add (Work_Sub oakWork (Work_Div64 oakWork 200)) newWork
      in (decayedTime, decayedWork))"

text \<open>
  \<^verbatim>\<open>adjustDifficulty\<close> is split at its comments into the steps below, each named after
  the local variable it computes. \<^verbatim>\<open>blockInterval\<close> is the untyped-constant quotient
  \<^verbatim>\<open>BlockInterval / time.Second\<close>; \<^verbatim>\<open>time.Duration(height)\<close> reinterprets the unsigned
  height as a signed 64-bit value.
\<close>

definition blockInterval :: Duration where
  "blockInterval = tdiv BlockInterval Second"

definition adjust_delta :: "u64 \<Rightarrow> Duration \<Rightarrow> Duration" where
  "adjust_delta height actualTime =
     (let expectedTime = i64 (blockInterval * sint height)
      in tdiv (i64 (expectedTime - actualTime)) Second)"

definition adjust_shift :: "Duration \<Rightarrow> Duration" where
  "adjust_shift delta =
     (let shift = i64 (delta * delta);
          shift = (if delta < 0 then i64 (- shift) else shift);
          shift = i64 (shift * 10);
          shift = tdiv shift (10000 * 10000)
      in shift)"

definition adjust_targetBlockTime :: "Duration \<Rightarrow> Duration" where
  "adjust_targetBlockTime shift =
     (let targetBlockTime = i64 (blockInterval + shift)
      in if targetBlockTime < tdiv blockInterval 3 then tdiv blockInterval 3
         else if targetBlockTime > blockInterval * 3 then blockInterval * 3
         else targetBlockTime)"

definition adjustDifficulty :: "Work \<Rightarrow> u64 \<Rightarrow> Duration \<Rightarrow> Duration \<Rightarrow> Work \<Rightarrow> Work" where
  "adjustDifficulty difficulty height actualTime oakTime oakWork =
     (let delta = adjust_delta height actualTime;
          shift = adjust_shift delta;
          targetBlockTime = adjust_targetBlockTime shift;
          oakTime = (if oakTime \<le> Second then Second else oakTime);
          estimatedHashrate = Work_Div64 oakWork (word_of_int (tdiv oakTime Second));
          newDifficulty = Work_Mul64 estimatedHashrate (word_of_int targetBlockTime);
          maxAdjust = Work_Div64 difficulty 250;
          lo = Work_Sub difficulty maxAdjust;
          hi = Work_Add difficulty maxAdjust
      in if Work_Cmp newDifficulty lo < 0 then lo
         else if Work_Cmp newDifficulty hi > 0 then hi
         else newDifficulty)"

section \<open>Data model\<close>

text \<open>
  Modelled from the spec: the package \<^verbatim>\<open>types\<close> (hashes, addresses, currency, chain index,
  header, block, transaction, the three state elements) is declared outside update.go
  and scratch.go. The records below hold the fields that these two files read or write,
  under the names used there; the terms of a file contract and the storage proof of a resolution,
  which the two files pass on without reading, are one opaque field each. Hashes and
  addresses are 32-byte values, read as numbers. The methods \<^verbatim>\<open>Sub\<close>, \<^verbatim>\<open>Add\<close>, \<^verbatim>\<open>Div64\<close>,
  \<^verbatim>\<open>Mul64\<close> and \<^verbatim>\<open>IsZero\<close> of \<^verbatim>\<open>types.Currency\<close> are the arithmetic of natural numbers,
  without an upper bound (the spec writes the claim payout as
  \<open>(siafund_pool - claim_start) / SIAFUND_COUNT * input.value\<close>). What \<^verbatim>\<open>Sub\<close> does when
  the result would be negative is not in the sources: the difference stops at zero here.
\<close>

type_synonym Hash256 = nat
type_synonym Address = nat
type_synonym Currency = nat

definition Currency_Add :: "Currency \<Rightarrow> Currency \<Rightarrow> Currency" where
  "Currency_Add c v = c + v"

definition Currency_Sub :: "Currency \<Rightarrow> Currency \<Rightarrow> Currency" where
  "Currency_Sub c v = c - v"

definition Currency_Div64 :: "Currency \<Rightarrow> u64 \<Rightarrow> Currency" where
  "Currency_Div64 c v = c div unat v"

definition Currency_Mul64 :: "Currency \<Rightarrow> u64 \<Rightarrow> Currency" where
  "Currency_Mul64 c v = c * unat v"

definition Currency_IsZero :: "Currency \<Rightarrow> bool" where
  "Currency_IsZero c \<longleftrightarrow> c = 0"

text \<open>
  Modelled from the spec: the constants \<^verbatim>\<open>types.VoidAddress\<close> and
  \<^verbatim>\<open>types.EphemeralLeafIndex\<close> are declared outside update.go and scratch.go. The spec only says that the
  first is the void address and the second a sentinel leaf index; they are taken as the
  all-zero address and the largest 64-bit value.
\<close>

definition VoidAddress :: Address where "VoidAddress = 0"

definition EphemeralLeafIndex :: u64 where "EphemeralLeafIndex = - 1"

record ChainIndex =
  ci_Height :: u64
  ci_ID :: Hash256

record BlockHeader =
  Height :: u64
  ParentID :: Hash256
  Nonce :: u64
  Timestamp :: Time
  MinerAddress :: Address
  Commitment :: Hash256

record ElementID =
  Source :: Hash256
  eid_Index :: u64

record StateElement =
  ID :: ElementID
  LeafIndex :: u64
  MerkleProof :: "Hash256 list"

record SiacoinOutput =
  Value :: Currency
  Address :: Address

record SiafundOutput =
  sf_Value :: u64
  sf_Address :: Address

record SiacoinElement =
  sce_StateElement :: StateElement
  sce_SiacoinOutput :: SiacoinOutput
  MaturityHeight :: u64

record SiafundElement =
  sfe_StateElement :: StateElement
  sfe_SiafundOutput :: SiafundOutput
  ClaimStart :: Currency

record FileContract =
  RenterOutput :: SiacoinOutput
  HostOutput :: SiacoinOutput
  MissedHostValue :: Currency
  fc_terms :: "nat list"

record FileContractElement =
  fce_StateElement :: StateElement
  fce_FileContract :: FileContract

record SiacoinInput =
  sci_Parent :: SiacoinElement

record SiafundInput =
  sfi_Parent :: SiafundElement
  ClaimAddress :: Address

record FileContractRevision =
  rev_Parent :: FileContractElement
  Revision :: FileContract

record FileContractRenewal =
  FinalRevision :: FileContract
  InitialRevision :: FileContract
  RenterRollover :: Currency
  HostRollover :: Currency

record FileContractResolution =
  res_Parent :: FileContractElement
  Renewal :: FileContractRenewal
  StorageProof :: "nat list"
  Finalization :: FileContract

record Transaction =
  SiacoinInputs :: "SiacoinInput list"
  SiacoinOutputs :: "SiacoinOutput list"
  SiafundInputs :: "SiafundInput list"
  SiafundOutputs :: "SiafundOutput list"
  FileContracts :: "FileContract list"
  FileContractRevisions :: "FileContractRevision list"
  FileContractResolutions :: "FileContractResolution list"
  NewFoundationAddress :: Address
  MinerFee :: Currency

record Block =
  Header :: BlockHeader
  Transactions :: "Transaction list"

text \<open>
  Modelled from the spec: the package \<^verbatim>\<open>merkle\<close> is declared outside update.go and
  scratch.go. The element accumulator is a snapshot of tree roots with its leaf counter,
  the history accumulator a snapshot of roots, a leaf carries the state element, the
  hash of the element and the spent flag, and the four update records are opaque.
\<close>

record ElementAccumulator =
  Trees :: "Hash256 list"
  NumLeaves :: u64

type_synonym HistoryAccumulator = "Hash256 list"

record ElementLeaf =
  leaf_StateElement :: StateElement
  ElementHash :: Hash256
  Spent :: bool

type_synonym ElementApplyUpdate = "ElementLeaf list"
type_synonym ElementRevertUpdate = "ElementLeaf list"
type_synonym HistoryApplyUpdate = "Hash256 list"
type_synonym HistoryRevertUpdate = "Hash256 list"

text \<open>
  Modelled from the spec: the struct \<^verbatim>\<open>ValidationContext\<close> is declared outside update.go
  and scratch.go (section 3 of the spec lists its fields). \<^verbatim>\<open>PrevTimestamps\<close> is a fixed-size array in
  the source; it is a list here, whose length is the capacity of the window.
\<close>

record ValidationContext =
  Index :: ChainIndex
  State :: ElementAccumulator
  History :: HistoryAccumulator
  TotalWork :: Work
  Difficulty :: Work
  OakWork :: Work
  OakTime :: Duration
  GenesisTimestamp :: Time
  SiafundPool :: Currency
  FoundationAddress :: Address
  PrevTimestamps :: "Time list"

section \<open>External collaborators\<close>

text \<open>
  The functions of this repository that update.go and scratch.go call and that are
  declared in other files are parameters of the model, collected in one record. Hashing
  (\<^verbatim>\<open>BlockHeader.ID\<close>, \<^verbatim>\<open>Transaction.ID\<close>, the three leaf constructors of \<^verbatim>\<open>merkle\<close>),
  the context helpers, the two validators and the accumulators are all of this kind.
  A Go \<^verbatim>\<open>error\<close> is its message, \<^verbatim>\<open>nil\<close> is \<open>None\<close>.

  A method with a pointer receiver may change its receiver, so the four accumulator
  methods return the accumulator after the call next to their result;
  \<^verbatim>\<open>ElementAccumulator.ApplyBlock\<close> also returns the created leaves, whose state elements
  it fills in. The spec describes the validators and the context helpers as pure.
\<close>

type_synonym error = string

record externals =
  header_ID :: "BlockHeader \<Rightarrow> Hash256"
  txn_ID :: "Transaction \<Rightarrow> Hash256"
  numTimestamps :: "ValidationContext \<Rightarrow> int"
  BlockReward :: "ValidationContext \<Rightarrow> Currency"
  FoundationSubsidy :: "ValidationContext \<Rightarrow> Currency"
  vc_MaturityHeight :: "ValidationContext \<Rightarrow> u64"
  FileContractTax :: "ValidationContext \<Rightarrow> FileContract \<Rightarrow> Currency"
  validateHeader :: "ValidationContext \<Rightarrow> BlockHeader \<Rightarrow> error option"
  ValidateBlock :: "ValidationContext \<Rightarrow> Block \<Rightarrow> error option"
  HasRenewal :: "FileContractResolution \<Rightarrow> bool"
  HasStorageProof :: "FileContractResolution \<Rightarrow> bool"
  HasFinalization :: "FileContractResolution \<Rightarrow> bool"
  SiacoinLeaf :: "SiacoinElement \<Rightarrow> bool \<Rightarrow> ElementLeaf"
  SiafundLeaf :: "SiafundElement \<Rightarrow> bool \<Rightarrow> ElementLeaf"
  FileContractLeaf :: "FileContractElement \<Rightarrow> bool \<Rightarrow> ElementLeaf"
  State_ApplyBlock :: "ElementAccumulator \<Rightarrow> ElementLeaf list \<Rightarrow> ElementLeaf list
     \<Rightarrow> ElementAccumulator \<times> ElementLeaf list \<times> ElementApplyUpdate"
  State_RevertBlock :: "ElementAccumulator \<Rightarrow> ElementLeaf list
     \<Rightarrow> ElementAccumulator \<times> ElementRevertUpdate"
  History_ApplyBlock :: "HistoryAccumulator \<Rightarrow> ChainIndex
     \<Rightarrow> HistoryAccumulator \<times> HistoryApplyUpdate"
  History_RevertBlock :: "HistoryAccumulator \<Rightarrow> ChainIndex
     \<Rightarrow> HistoryAccumulator \<times> HistoryRevertUpdate"

text \<open>
  Modelled from the spec: \<^verbatim>\<open>BlockHeader.Index\<close>, \<^verbatim>\<open>BlockHeader.ParentIndex\<close>, \<^verbatim>\<open>Block.ID\<close>,
  \<^verbatim>\<open>Block.Index\<close> and \<^verbatim>\<open>FileContract.MissedHostOutput\<close> are declared in other files. An index
  is the pair of a height and a block id; the parent of a header is one block lower
  (in 64-bit arithmetic) and has the id the header names; a block has the id and index
  of its header; the missed host output pays the missed host value to the host.
\<close>

definition Header_Index :: "externals \<Rightarrow> BlockHeader \<Rightarrow> ChainIndex" where
  "Header_Index ext h = \<lparr>ci_Height = Height h, ci_ID = header_ID ext h\<rparr>"

definition ParentIndex :: "BlockHeader \<Rightarrow> ChainIndex" where
  "ParentIndex h = \<lparr>ci_Height = Height h - 1, ci_ID = ParentID h\<rparr>"

definition Block_ID :: "externals \<Rightarrow> Block \<Rightarrow> Hash256" where
  "Block_ID ext b = header_ID ext (Header b)"

definition Block_Index :: "externals \<Rightarrow> Block \<Rightarrow> ChainIndex" where
  "Block_Index ext b = Header_Index ext (Header b)"

definition MissedHostOutput :: "FileContract \<Rightarrow> SiacoinOutput" where
  "MissedHostOutput fc = \<lparr>Value = MissedHostValue fc, Address = Address (HostOutput fc)\<rparr>"

section \<open>Header applier (update.go)\<close>

text \<open>
  A Go panic is a value of the type below; every function that can panic returns
  \<open>Inl\<close> of it. Reading or writing an array outside its bounds panics.
\<close>

datatype panic =
  IndexOutOfRange
  | CannotApplyNonChildBlock
  | CannotRevertGenesisBlock
  | CannotRevertNonChildBlock

definition in_range :: "int \<Rightarrow> 'a list \<Rightarrow> bool" where
  "in_range i xs \<longleftrightarrow> 0 \<le> i \<and> i < int (length xs)"

definition applyHeader :: "externals \<Rightarrow> ValidationContext \<Rightarrow> BlockHeader \<Rightarrow> panic + ValidationContext" where
  "applyHeader ext vc h =
     (if Height h = 0 then
        (if \<not> in_range 0 (PrevTimestamps vc) then Inl IndexOutOfRange
         else Inr (vc\<lparr>PrevTimestamps := (PrevTimestamps vc)[0 := Timestamp h],
                       Index := Header_Index ext h\<rparr>))
      else
        let vc = vc\<lparr>TotalWork := Work_Add (TotalWork vc) (Difficulty vc)\<rparr> in
        if \<not> in_range (numTimestamps ext vc - 1) (PrevTimestamps vc) then Inl IndexOutOfRange
        else
          let parentTimestamp = PrevTimestamps vc ! nat (numTimestamps ext vc - 1);
              (oakTime, oakWork) =
                 updateOakTotals (OakTime vc) (Time_Sub (Timestamp h) parentTimestamp)
                   (OakWork vc) (Difficulty vc);
              vc = vc\<lparr>OakTime := oakTime, OakWork := oakWork\<rparr>;
              vc = vc\<lparr>Difficulty :=
                     adjustDifficulty (Difficulty vc) (Height h)
                       (Time_Sub (Timestamp h) (GenesisTimestamp vc)) (OakTime vc) (OakWork vc)\<rparr>
          in if numTimestamps ext vc < int (length (PrevTimestamps vc)) then
               (if \<not> in_range (numTimestamps ext vc) (PrevTimestamps vc) then Inl IndexOutOfRange
                else Inr (vc\<lparr>PrevTimestamps :=
                               (PrevTimestamps vc)[nat (numTimestamps ext vc) := Timestamp h],
                             Index := Header_Index ext h\<rparr>))
             else
               (if PrevTimestamps vc = [] then Inl IndexOutOfRange
                else Inr (vc\<lparr>PrevTimestamps := tl (PrevTimestamps vc) @ [Timestamp h],
                             Index := Header_Index ext h\<rparr>)))"

text \<open>
  Applying a sequence of headers, as repeated calls of \<^verbatim>\<open>applyHeader\<close> on the same
  context do; a panic stops the sequence.
\<close>

fun applyHeaders :: "externals \<Rightarrow> ValidationContext \<Rightarrow> BlockHeader list \<Rightarrow> panic + ValidationContext" where
  "applyHeaders ext vc [] = Inr vc"
| "applyHeaders ext vc (h # hs) =
     (case applyHeader ext vc h of
        Inl p \<Rightarrow> Inl p
      | Inr vc' \<Rightarrow> applyHeaders ext vc' hs)"

text \<open>
  The difficulty values held by the context at the moment each non-genesis header of a
  sequence is applied, in order.
\<close>

fun difficulties_applied :: "externals \<Rightarrow> ValidationContext \<Rightarrow> BlockHeader list \<Rightarrow> Work list" where
  "difficulties_applied ext vc [] = []"
| "difficulties_applied ext vc (h # hs) =
     (case applyHeader ext vc h of
        Inl p \<Rightarrow> []
      | Inr vc' \<Rightarrow>
          (if Height h = 0 then [] else [Difficulty vc]) @ difficulties_applied ext vc' hs)"

section \<open>Block-diff computer (update.go)\<close>

text \<open>
  \<^verbatim>\<open>updatedInBlock\<close> appends to five lists while it walks the transactions. \<^verbatim>\<open>addLeaf\<close>
  copies the proof of a leaf before appending it, which is the identity on values.
\<close>

type_synonym updated_lists =
  "SiacoinElement list \<times> SiafundElement list \<times> FileContractElement list
   \<times> FileContractElement list \<times> ElementLeaf list"

fun updated_SiacoinInput :: "externals \<Rightarrow> bool \<Rightarrow> updated_lists \<Rightarrow> SiacoinInput \<Rightarrow> updated_lists" where
  "updated_SiacoinInput ext apply (scos, sfos, revised, resolved, leaves) inp =
     (if LeafIndex (sce_StateElement (sci_Parent inp)) \<noteq> EphemeralLeafIndex
      then (scos @ [sci_Parent inp], sfos, revised, resolved,
            leaves @ [SiacoinLeaf ext (sci_Parent inp) apply])
      else (scos, sfos, revised, resolved, leaves))"

fun updated_SiafundInput :: "externals \<Rightarrow> bool \<Rightarrow> updated_lists \<Rightarrow> SiafundInput \<Rightarrow> updated_lists" where
  "updated_SiafundInput ext apply (scos, sfos, revised, resolved, leaves) inp =
     (scos, sfos @ [sfi_Parent inp], revised, resolved,
      leaves @ [SiafundLeaf ext (sfi_Parent inp) apply])"

fun updated_Revision :: "externals \<Rightarrow> bool \<Rightarrow> updated_lists \<Rightarrow> FileContractRevision \<Rightarrow> updated_lists" where
  "updated_Revision ext apply (scos, sfos, revised, resolved, leaves) fcr =
     (let fce = rev_Parent fcr;
          fce = (if apply then fce\<lparr>fce_FileContract := Revision fcr\<rparr> else fce)
      in (scos, sfos, revised @ [fce], resolved, leaves @ [FileContractLeaf ext fce False]))"

fun updated_Resolution :: "externals \<Rightarrow> bool \<Rightarrow> updated_lists \<Rightarrow> FileContractResolution \<Rightarrow> updated_lists" where
  "updated_Resolution ext apply (scos, sfos, revised, resolved, leaves) fcr =
     (let fce = res_Parent fcr;
          fce = (if apply then
                   (if HasRenewal ext fcr
                      then fce\<lparr>fce_FileContract := FinalRevision (Renewal fcr)\<rparr>
                    else if HasFinalization ext fcr
                      then fce\<lparr>fce_FileContract := Finalization fcr\<rparr>
                    else fce)
                 else fce)
      in (scos, sfos, revised, resolved @ [fce], leaves @ [FileContractLeaf ext fce apply]))"

definition updated_Transaction :: "externals \<Rightarrow> bool \<Rightarrow> updated_lists \<Rightarrow> Transaction \<Rightarrow> updated_lists" where
  "updated_Transaction ext apply acc txn =
     (let acc = foldl (updated_SiacoinInput ext apply) acc (SiacoinInputs txn);
          acc = foldl (updated_SiafundInput ext apply) acc (SiafundInputs txn);
          acc = foldl (updated_Revision ext apply) acc (FileContractRevisions txn);
          acc = foldl (updated_Resolution ext apply) acc (FileContractResolutions txn)
      in acc)"

definition updatedInBlock :: "externals \<Rightarrow> ValidationContext \<Rightarrow> Block \<Rightarrow> bool \<Rightarrow> updated_lists" where
  "updatedInBlock ext vc b apply =
     foldl (updated_Transaction ext apply) ([], [], [], [], []) (Transactions b)"

text \<open>
  \<^verbatim>\<open>createdInBlock\<close>: the closure \<^verbatim>\<open>nextElement\<close> increments the counter \<^verbatim>\<open>index\<close> of the
  current transaction and returns a state element with the id \<^verbatim>\<open>(txid, index - 1)\<close>; the
  counter is threaded through the five loops of a transaction next to the three lists.
\<close>

definition nextElement :: "Hash256 \<Rightarrow> u64 \<Rightarrow> StateElement \<times> u64" where
  "nextElement txid index =
     (let index = index + 1
      in (\<lparr>ID = \<lparr>Source = txid, eid_Index = index - 1\<rparr>, LeafIndex = 0, MerkleProof = []\<rparr>,
          index))"

type_synonym created_state =
  "u64 \<times> SiacoinElement list \<times> SiafundElement list \<times> FileContractElement list"

fun created_SiacoinOutput :: "Hash256 \<Rightarrow> created_state \<Rightarrow> SiacoinOutput \<Rightarrow> created_state" where
  "created_SiacoinOutput txid (index, sces, sfes, fces) out =
     (let (se, index) = nextElement txid index
      in (index,
          sces @ [\<lparr>sce_StateElement = se, sce_SiacoinOutput = out, MaturityHeight = 0\<rparr>],
          sfes, fces))"

fun created_SiafundInput :: "externals \<Rightarrow> ValidationContext \<Rightarrow> Hash256 \<Rightarrow> created_state \<Rightarrow> SiafundInput \<Rightarrow> created_state" where
  "created_SiafundInput ext vc txid (index, sces, sfes, fces) inp =
     (let (se, index) = nextElement txid index
      in (index,
          sces @ [\<lparr>sce_StateElement = se,
                   sce_SiacoinOutput =
                     \<lparr>Value = Currency_Mul64
                                (Currency_Div64
                                   (Currency_Sub (SiafundPool vc) (ClaimStart (sfi_Parent inp)))
                                   SiafundCount)
                                (sf_Value (sfe_SiafundOutput (sfi_Parent inp))),
                      Address = ClaimAddress inp\<rparr>,
                   MaturityHeight = vc_MaturityHeight ext vc\<rparr>],
          sfes, fces))"

fun created_SiafundOutput :: "ValidationContext \<Rightarrow> Hash256 \<Rightarrow> created_state \<Rightarrow> SiafundOutput \<Rightarrow> created_state" where
  "created_SiafundOutput vc txid (index, sces, sfes, fces) out =
     (let (se, index) = nextElement txid index
      in (index, sces,
          sfes @ [\<lparr>sfe_StateElement = se, sfe_SiafundOutput = out, ClaimStart = SiafundPool vc\<rparr>],
          fces))"

fun created_FileContract :: "Hash256 \<Rightarrow> created_state \<Rightarrow> FileContract \<Rightarrow> created_state" where
  "created_FileContract txid (index, sces, sfes, fces) fc =
     (let (se, index) = nextElement txid index
      in (index, sces, sfes, fces @ [\<lparr>fce_StateElement = se, fce_FileContract = fc\<rparr>]))"

fun created_Resolution :: "externals \<Rightarrow> ValidationContext \<Rightarrow> Hash256 \<Rightarrow> created_state \<Rightarrow> FileContractResolution \<Rightarrow> created_state" where
  "created_Resolution ext vc txid (index, sces, sfes, fces) fcr =
     (let fce = res_Parent fcr;
          (renter, host, index, fces) =
            (if HasRenewal ext fcr then
               (let renter = RenterOutput (FinalRevision (Renewal fcr));
                    host = HostOutput (FinalRevision (Renewal fcr));
                    renter = renter\<lparr>Value := Currency_Sub (Value renter) (RenterRollover (Renewal fcr))\<rparr>;
                    host = host\<lparr>Value := Currency_Sub (Value host) (HostRollover (Renewal fcr))\<rparr>;
                    (se, index) = nextElement txid index
                in (renter, host, index,
                    fces @ [\<lparr>fce_StateElement = se,
                             fce_FileContract = InitialRevision (Renewal fcr)\<rparr>]))
             else if HasStorageProof ext fcr then
               (RenterOutput (fce_FileContract fce), HostOutput (fce_FileContract fce), index, fces)
             else if HasFinalization ext fcr then
               (RenterOutput (Finalization fcr), HostOutput (Finalization fcr), index, fces)
             else
               (RenterOutput (fce_FileContract fce), MissedHostOutput (fce_FileContract fce),
                index, fces));
          (se, index) = nextElement txid index;
          sces = sces @ [\<lparr>sce_StateElement = se, sce_SiacoinOutput = renter,
                          MaturityHeight = vc_MaturityHeight ext vc\<rparr>];
          (se, index) = nextElement txid index;
          sces = sces @ [\<lparr>sce_StateElement = se, sce_SiacoinOutput = host,
                          MaturityHeight = vc_MaturityHeight ext vc\<rparr>]
      in (index, sces, sfes, fces))"

type_synonym created_lists =
  "SiacoinElement list \<times> SiafundElement list \<times> FileContractElement list"

fun created_Transaction :: "externals \<Rightarrow> ValidationContext \<Rightarrow> created_lists \<Rightarrow> Transaction \<Rightarrow> created_lists" where
  "created_Transaction ext vc (sces, sfes, fces) txn =
     (let txid = txn_ID ext txn;
          st = (0, sces, sfes, fces);
          st = foldl (created_SiacoinOutput txid) st (SiacoinOutputs txn);
          st = foldl (created_SiafundInput ext vc txid) st (SiafundInputs txn);
          st = foldl (created_SiafundOutput vc txid) st (SiafundOutputs txn);
          st = foldl (created_FileContract txid) st (FileContracts txn);
          st = foldl (created_Resolution ext vc txid) st (FileContractResolutions txn)
      in snd st)"

definition createdInBlock :: "externals \<Rightarrow> ValidationContext \<Rightarrow> Block \<Rightarrow> created_lists" where
  "createdInBlock ext vc b =
     (let sces = [\<lparr>sce_StateElement =
                      \<lparr>ID = \<lparr>Source = Block_ID ext b, eid_Index = 0\<rparr>,
                       LeafIndex = 0, MerkleProof = []\<rparr>,
                    sce_SiacoinOutput =
                      \<lparr>Value = BlockReward ext vc, Address = MinerAddress (Header b)\<rparr>,
                    MaturityHeight = vc_MaturityHeight ext vc\<rparr>];
          subsidy = FoundationSubsidy ext vc;
          sces = (if \<not> Currency_IsZero subsidy then
                    sces @ [\<lparr>sce_StateElement =
                               \<lparr>ID = \<lparr>Source = Block_ID ext b, eid_Index = 1\<rparr>,
                                LeafIndex = 0, MerkleProof = []\<rparr>,
                             sce_SiacoinOutput =
                               \<lparr>Value = subsidy, Address = FoundationAddress vc\<rparr>,
                             MaturityHeight = vc_MaturityHeight ext vc\<rparr>]
                  else sces)
      in foldl (created_Transaction ext vc) (sces, [], []) (Transactions b))"

section \<open>Apply/Revert engine (update.go)\<close>

record ApplyUpdate =
  au_ElementApplyUpdate :: ElementApplyUpdate
  au_HistoryApplyUpdate :: HistoryApplyUpdate
  au_Context :: ValidationContext
  au_SpentSiacoins :: "SiacoinElement list"
  au_SpentSiafunds :: "SiafundElement list"
  au_RevisedFileContracts :: "FileContractElement list"
  au_ResolvedFileContracts :: "FileContractElement list"
  au_NewSiacoinElements :: "SiacoinElement list"
  au_NewSiafundElements :: "SiafundElement list"
  au_NewFileContracts :: "FileContractElement list"

text \<open>
  The map \<^verbatim>\<open>spent\<close> of \<^verbatim>\<open>ApplyBlock\<close> holds \<^verbatim>\<open>true\<close> at the ids of the siacoin inputs with
  the ephemeral leaf index and is read with the default \<^verbatim>\<open>false\<close>: it is the membership
  test of the list of these ids.
\<close>

definition spent_ids :: "Block \<Rightarrow> ElementID list" where
  "spent_ids b =
     concat (map (\<lambda>txn.
        map (\<lambda>inp. ID (sce_StateElement (sci_Parent inp)))
          (filter (\<lambda>inp. LeafIndex (sce_StateElement (sci_Parent inp)) = EphemeralLeafIndex)
             (SiacoinInputs txn)))
       (Transactions b))"

text \<open>
  \<^verbatim>\<open>ElementAccumulator.ApplyBlock\<close> receives the slice \<^verbatim>\<open>created\<close> and overwrites its
  elements; the slice of the caller keeps its length whatever the callee does.
\<close>

definition overwritten :: "'a list \<Rightarrow> 'a list \<Rightarrow> 'a list" where
  "overwritten old new =
     map (\<lambda>i. if i < length new then new ! i else old ! i) [0..<length old]"

text \<open>The tail of \<^verbatim>\<open>ApplyBlock\<close>, one step of its loop over the transactions.\<close>

definition applyTransaction :: "externals \<Rightarrow> ValidationContext \<Rightarrow> Transaction \<Rightarrow> ValidationContext" where
  "applyTransaction ext vc txn =
     (let vc = foldl (\<lambda>vc fc. vc\<lparr>SiafundPool :=
                         Currency_Add (SiafundPool vc) (FileContractTax ext vc fc)\<rparr>)
                 vc (FileContracts txn)
      in if NewFoundationAddress txn \<noteq> VoidAddress
         then vc\<lparr>FoundationAddress := NewFoundationAddress txn\<rparr>
         else vc)"

definition ApplyBlock :: "externals \<Rightarrow> ValidationContext \<Rightarrow> Block \<Rightarrow> panic + ApplyUpdate" where
  "ApplyBlock ext vc b =
     (if ci_Height (Index vc) > 0 \<and> Index vc \<noteq> ParentIndex (Header b)
      then Inl CannotApplyNonChildBlock
      else
        let (scos, sfos, revised, resolved, updated) = updatedInBlock ext vc b True;
            (sces, sfes, fces) = createdInBlock ext vc b;
            spent = (\<lambda>i. i \<in> set (spent_ids b));
            created =
              map (\<lambda>sce. SiacoinLeaf ext sce (spent (ID (sce_StateElement sce)))) sces
              @ map (\<lambda>sfe. SiafundLeaf ext sfe (spent (ID (sfe_StateElement sfe)))) sfes
              @ map (\<lambda>fce. FileContractLeaf ext fce (spent (ID (fce_StateElement fce)))) fces;
            (state, created', eau) = State_ApplyBlock ext (State vc) updated created;
            created = overwritten created created';
            vc = vc\<lparr>State := state\<rparr>;
            sces = map (\<lambda>(sce, l). sce\<lparr>sce_StateElement := leaf_StateElement l\<rparr>)
                     (zip sces created);
            created = drop (length sces) created;
            sfes = map (\<lambda>(sfe, l). sfe\<lparr>sfe_StateElement := leaf_StateElement l\<rparr>)
                     (zip sfes created);
            created = drop (length sfes) created;
            fces = map (\<lambda>(fce, l). fce\<lparr>fce_StateElement := leaf_StateElement l\<rparr>)
                     (zip fces created);
            (history, hau) = History_ApplyBlock ext (History vc) (Block_Index ext b);
            vc = vc\<lparr>History := history\<rparr>
        in case applyHeader ext vc (Header b) of
             Inl p \<Rightarrow> Inl p
           | Inr vc \<Rightarrow>
               Inr \<lparr>au_ElementApplyUpdate = eau,
                    au_HistoryApplyUpdate = hau,
                    au_Context = foldl (applyTransaction ext) vc (Transactions b),
                    au_SpentSiacoins = scos,
                    au_SpentSiafunds = sfos,
                    au_RevisedFileContracts = revised,
                    au_ResolvedFileContracts = resolved,
                    au_NewSiacoinElements = sces,
                    au_NewSiafundElements = sfes,
                    au_NewFileContracts = fces\<rparr>)"

record RevertUpdate =
  ru_ElementRevertUpdate :: ElementRevertUpdate
  ru_HistoryRevertUpdate :: HistoryRevertUpdate
  ru_Context :: ValidationContext
  ru_SpentSiacoins :: "SiacoinElement list"
  ru_SpentSiafunds :: "SiafundElement list"
  ru_RevisedFileContracts :: "FileContractElement list"
  ru_ResolvedFileContracts :: "FileContractElement list"
  ru_NewSiacoinElements :: "SiacoinElement list"
  ru_NewSiafundElements :: "SiafundElement list"
  ru_NewFileContracts :: "FileContractElement list"

definition SiacoinElementWasRemoved :: "RevertUpdate \<Rightarrow> SiacoinElement \<Rightarrow> bool" where
  "SiacoinElementWasRemoved ru sce \<longleftrightarrow>
     LeafIndex (sce_StateElement sce) \<noteq> EphemeralLeafIndex
     \<and> LeafIndex (sce_StateElement sce) \<ge> NumLeaves (State (ru_Context ru))"

definition SiafundElementWasRemoved :: "RevertUpdate \<Rightarrow> SiafundElement \<Rightarrow> bool" where
  "SiafundElementWasRemoved ru sfe \<longleftrightarrow>
     LeafIndex (sfe_StateElement sfe) \<noteq> EphemeralLeafIndex
     \<and> LeafIndex (sfe_StateElement sfe) \<ge> NumLeaves (State (ru_Context ru))"

definition FileContractElementWasRemoved :: "RevertUpdate \<Rightarrow> FileContractElement \<Rightarrow> bool" where
  "FileContractElementWasRemoved ru fce \<longleftrightarrow>
     LeafIndex (fce_StateElement fce) \<noteq> EphemeralLeafIndex
     \<and> LeafIndex (fce_StateElement fce) \<ge> NumLeaves (State (ru_Context ru))"

definition RevertBlock :: "externals \<Rightarrow> ValidationContext \<Rightarrow> Block \<Rightarrow> panic + RevertUpdate" where
  "RevertBlock ext vc b =
     (if Height (Header b) = 0 then Inl CannotRevertGenesisBlock
      else if Index vc \<noteq> ParentIndex (Header b) then Inl CannotRevertNonChildBlock
      else
        let ctx = vc;
            (history, hru) = History_RevertBlock ext (History ctx) (Block_Index ext b);
            ctx = ctx\<lparr>History := history\<rparr>;
            (scos, sfos, revised, resolved, updated) = updatedInBlock ext vc b False;
            (sces, sfes, fces) = createdInBlock ext vc b;
            (state, eru) = State_RevertBlock ext (State ctx) updated;
            ctx = ctx\<lparr>State := state\<rparr>
        in Inr \<lparr>ru_ElementRevertUpdate = eru,
                ru_HistoryRevertUpdate = hru,
                ru_Context = ctx,
                ru_SpentSiacoins = scos,
                ru_SpentSiafunds = sfos,
                ru_RevisedFileContracts = revised,
                ru_ResolvedFileContracts = resolved,
                ru_NewSiacoinElements = sces,
                ru_NewSiafundElements = sfes,
                ru_NewFileContracts = fces\<rparr>)"

text \<open>
  The same two functions with the steps that change the accumulator, the history or the
  context written to a trace, each at the place where the source performs it: the calls
  of the four accumulator methods and of \<^verbatim>\<open>applyHeader\<close>, which work on the context in
  place, and the assignments to \<^verbatim>\<open>vc.SiafundPool\<close> and \<^verbatim>\<open>vc.FoundationAddress\<close>. A run returns
  the trace of the steps it has started next to its result, also when it panics.
\<close>

datatype mutation =
  State_ApplyBlock_call
  | History_ApplyBlock_call
  | applyHeader_call
  | SiafundPool_write
  | FoundationAddress_write
  | History_RevertBlock_call
  | State_RevertBlock_call

definition applyTransaction_trace :: "Transaction \<Rightarrow> mutation list" where
  "applyTransaction_trace txn =
     replicate (length (FileContracts txn)) SiafundPool_write
     @ (if NewFoundationAddress txn \<noteq> VoidAddress then [FoundationAddress_write] else [])"

definition ApplyBlock_traced :: "externals \<Rightarrow> ValidationContext \<Rightarrow> Block \<Rightarrow> mutation list \<times> (panic + ApplyUpdate)" where
  "ApplyBlock_traced ext vc b =
     (if ci_Height (Index vc) > 0 \<and> Index vc \<noteq> ParentIndex (Header b)
      then ([], Inl CannotApplyNonChildBlock)
      else
        let (scos, sfos, revised, resolved, updated) = updatedInBlock ext vc b True;
            (sces, sfes, fces) = createdInBlock ext vc b;
            spent = (\<lambda>i. i \<in> set (spent_ids b));
            created =
              map (\<lambda>sce. SiacoinLeaf ext sce (spent (ID (sce_StateElement sce)))) sces
              @ map (\<lambda>sfe. SiafundLeaf ext sfe (spent (ID (sfe_StateElement sfe)))) sfes
              @ map (\<lambda>fce. FileContractLeaf ext fce (spent (ID (fce_StateElement fce)))) fces;
            trace = [State_ApplyBlock_call];
            (state, created', eau) = State_ApplyBlock ext (State vc) updated created;
            created = overwritten created created';
            vc = vc\<lparr>State := state\<rparr>;
            sces = map (\<lambda>(sce, l). sce\<lparr>sce_StateElement := leaf_StateElement l\<rparr>)
                     (zip sces created);
            created = drop (length sces) created;
            sfes = map (\<lambda>(sfe, l). sfe\<lparr>sfe_StateElement := leaf_StateElement l\<rparr>)
                     (zip sfes created);
            created = drop (length sfes) created;
            fces = map (\<lambda>(fce, l). fce\<lparr>fce_StateElement := leaf_StateElement l\<rparr>)
                     (zip fces created);
            trace = trace @ [History_ApplyBlock_call];
            (history, hau) = History_ApplyBlock ext (History vc) (Block_Index ext b);
            vc = vc\<lparr>History := history\<rparr>;
            trace = trace @ [applyHeader_call]
        in case applyHeader ext vc (Header b) of
             Inl p \<Rightarrow> (trace, Inl p)
           | Inr vc \<Rightarrow>
               (trace @ concat (map applyTransaction_trace (Transactions b)),
                Inr \<lparr>au_ElementApplyUpdate = eau,
                     au_HistoryApplyUpdate = hau,
                     au_Context = foldl (applyTransaction ext) vc (Transactions b),
                     au_SpentSiacoins = scos,
                     au_SpentSiafunds = sfos,
                     au_RevisedFileContracts = revised,
                     au_ResolvedFileContracts = resolved,
                     au_NewSiacoinElements = sces,
                     au_NewSiafundElements = sfes,
                     au_NewFileContracts = fces\<rparr>))"

definition RevertBlock_traced :: "externals \<Rightarrow> ValidationContext \<Rightarrow> Block \<Rightarrow> mutation list \<times> (panic + RevertUpdate)" where
  "RevertBlock_traced ext vc b =
     (if Height (Header b) = 0 then ([], Inl CannotRevertGenesisBlock)
      else if Index vc \<noteq> ParentIndex (Header b) then ([], Inl CannotRevertNonChildBlock)
      else
        let ctx = vc;
            trace = [History_RevertBlock_call];
            (history, hru) = History_RevertBlock ext (History ctx) (Block_Index ext b);
            ctx = ctx\<lparr>History := history\<rparr>;
            (scos, sfos, revised, resolved, updated) = updatedInBlock ext vc b False;
            (sces, sfes, fces) = createdInBlock ext vc b;
            trace = trace @ [State_RevertBlock_call];
            (state, eru) = State_RevertBlock ext (State ctx) updated;
            ctx = ctx\<lparr>State := state\<rparr>
        in (trace,
            Inr \<lparr>ru_ElementRevertUpdate = eru,
                 ru_HistoryRevertUpdate = hru,
                 ru_Context = ctx,
                 ru_SpentSiacoins = scos,
                 ru_SpentSiafunds = sfos,
                 ru_RevisedFileContracts = revised,
                 ru_ResolvedFileContracts = resolved,
                 ru_NewSiacoinElements = sces,
                 ru_NewSiafundElements = sfes,
                 ru_NewFileContracts = fces\<rparr>))"

section \<open>Scratch chain (scratch.go)\<close>

record ScratchChain =
  base :: ChainIndex
  headers :: "BlockHeader list"
  hvc :: ValidationContext
  tvc :: ValidationContext

record Checkpoint =
  cp_Block :: Block
  cp_Context :: ValidationContext

text \<open>
  A method of the scratch chain returns the chain after the call next to its result:
  the error or \<open>None\<close> for \<^verbatim>\<open>AppendHeader\<close>, the error or the checkpoint for
  \<^verbatim>\<open>ApplyBlock\<close>. A panic of a callee passes through.
\<close>

definition AppendHeader :: "externals \<Rightarrow> ScratchChain \<Rightarrow> BlockHeader \<Rightarrow> panic + ScratchChain \<times> error option" where
  "AppendHeader ext sc h =
     (case validateHeader ext (hvc sc) h of
        Some err \<Rightarrow> Inr (sc, Some err)
      | None \<Rightarrow>
          (case applyHeader ext (hvc sc) h of
             Inl p \<Rightarrow> Inl p
           | Inr vc \<Rightarrow> Inr (sc\<lparr>hvc := vc, headers := headers sc @ [h]\<rparr>, None)))"

definition ScratchChain_ApplyBlock :: "externals \<Rightarrow> ScratchChain \<Rightarrow> Block \<Rightarrow> panic + ScratchChain \<times> (error + Checkpoint)" where
  "ScratchChain_ApplyBlock ext sc b =
     (if ci_Height (Index (tvc sc)) + 1 > ci_Height (Index (hvc sc))
      then Inr (sc, Inl ''more blocks than headers'')
      else
        (case ValidateBlock ext (tvc sc) b of
           Some err \<Rightarrow> Inr (sc, Inl err)
         | None \<Rightarrow>
             (case ApplyBlock ext (tvc sc) b of
                Inl p \<Rightarrow> Inl p
              | Inr au \<Rightarrow>
                  (let sc = sc\<lparr>tvc := au_Context au\<rparr>
                   in Inr (sc, Inr \<lparr>cp_Block = b, cp_Context = tvc sc\<rparr>)))))"

definition NewScratchChain :: "ValidationContext \<Rightarrow> ScratchChain" where
  "NewScratchChain vc = \<lparr>base = Index vc, headers = [], hvc = vc, tvc = vc\<rparr>"

section \<open>The order of creation, in the words of the spec\<close>

text \<open>
  Section 4.C of the spec describes the elements a block creates as one sequence: the
  block reward, the foundation subsidy when it is not zero, then for each transaction its
  siacoin outputs, one claim output per siafund input, its siafund outputs, its new file
  contracts and, per resolution, the initial revision of a renewal followed by the renter
  and host payouts. The k-th element a transaction creates has the id
  \<open>(transaction id, k)\<close>. The definitions below follow these words; they are compared
  with \<^verbatim>\<open>createdInBlock\<close> of the source further down.
\<close>

datatype created =
  CreatedSiacoin SiacoinElement
  | CreatedSiafund SiafundElement
  | CreatedFileContract FileContractElement

fun siacoins_of :: "created list \<Rightarrow> SiacoinElement list" where
  "siacoins_of [] = []"
| "siacoins_of (CreatedSiacoin e # cs) = e # siacoins_of cs"
| "siacoins_of (c # cs) = siacoins_of cs"

fun siafunds_of :: "created list \<Rightarrow> SiafundElement list" where
  "siafunds_of [] = []"
| "siafunds_of (CreatedSiafund e # cs) = e # siafunds_of cs"
| "siafunds_of (c # cs) = siafunds_of cs"

fun filecontracts_of :: "created list \<Rightarrow> FileContractElement list" where
  "filecontracts_of [] = []"
| "filecontracts_of (CreatedFileContract e # cs) = e # filecontracts_of cs"
| "filecontracts_of (c # cs) = filecontracts_of cs"

definition new_StateElement :: "Hash256 \<Rightarrow> u64 \<Rightarrow> StateElement" where
  "new_StateElement src k = \<lparr>ID = \<lparr>Source = src, eid_Index = k\<rparr>, LeafIndex = 0, MerkleProof = []\<rparr>"

definition assign_ids :: "Hash256 \<Rightarrow> nat \<Rightarrow> (StateElement \<Rightarrow> created) list \<Rightarrow> created list" where
  "assign_ids src n ems = map (\<lambda>(k, em). em (new_StateElement src (of_nat k))) (enumerate n ems)"

definition resolution_payouts :: "externals \<Rightarrow> FileContractResolution \<Rightarrow> SiacoinOutput \<times> SiacoinOutput" where
  "resolution_payouts ext fcr =
     (if HasRenewal ext fcr then
        ((RenterOutput (FinalRevision (Renewal fcr)))
           \<lparr>Value := Value (RenterOutput (FinalRevision (Renewal fcr))) - RenterRollover (Renewal fcr)\<rparr>,
         (HostOutput (FinalRevision (Renewal fcr)))
           \<lparr>Value := Value (HostOutput (FinalRevision (Renewal fcr))) - HostRollover (Renewal fcr)\<rparr>)
      else if HasStorageProof ext fcr then
        (RenterOutput (fce_FileContract (res_Parent fcr)), HostOutput (fce_FileContract (res_Parent fcr)))
      else if HasFinalization ext fcr then
        (RenterOutput (Finalization fcr), HostOutput (Finalization fcr))
      else
        (RenterOutput (fce_FileContract (res_Parent fcr)),
         MissedHostOutput (fce_FileContract (res_Parent fcr))))"

definition emitted_by_resolution :: "externals \<Rightarrow> ValidationContext \<Rightarrow> FileContractResolution \<Rightarrow> (StateElement \<Rightarrow> created) list" where
  "emitted_by_resolution ext vc fcr =
     (if HasRenewal ext fcr
      then [\<lambda>se. CreatedFileContract \<lparr>fce_StateElement = se, fce_FileContract = InitialRevision (Renewal fcr)\<rparr>]
      else [])
     @ [\<lambda>se. CreatedSiacoin \<lparr>sce_StateElement = se, sce_SiacoinOutput = fst (resolution_payouts ext fcr),
                              MaturityHeight = vc_MaturityHeight ext vc\<rparr>,
        \<lambda>se. CreatedSiacoin \<lparr>sce_StateElement = se, sce_SiacoinOutput = snd (resolution_payouts ext fcr),
                              MaturityHeight = vc_MaturityHeight ext vc\<rparr>]"

definition claim_output :: "ValidationContext \<Rightarrow> SiafundInput \<Rightarrow> SiacoinOutput" where
  "claim_output vc inp =
     \<lparr>Value = (SiafundPool vc - ClaimStart (sfi_Parent inp)) div unat SiafundCount
              * unat (sf_Value (sfe_SiafundOutput (sfi_Parent inp))),
      Address = ClaimAddress inp\<rparr>"

definition emitted_by_transaction :: "externals \<Rightarrow> ValidationContext \<Rightarrow> Transaction \<Rightarrow> (StateElement \<Rightarrow> created) list" where
  "emitted_by_transaction ext vc txn =
     map (\<lambda>out se. CreatedSiacoin \<lparr>sce_StateElement = se, sce_SiacoinOutput = out, MaturityHeight = 0\<rparr>)
       (SiacoinOutputs txn)
     @ map (\<lambda>inp se. CreatedSiacoin \<lparr>sce_StateElement = se, sce_SiacoinOutput = claim_output vc inp,
                                      MaturityHeight = vc_MaturityHeight ext vc\<rparr>)
         (SiafundInputs txn)
     @ map (\<lambda>out se. CreatedSiafund \<lparr>sfe_StateElement = se, sfe_SiafundOutput = out,
                                      ClaimStart = SiafundPool vc\<rparr>)
         (SiafundOutputs txn)
     @ map (\<lambda>fc se. CreatedFileContract \<lparr>fce_StateElement = se, fce_FileContract = fc\<rparr>)
         (FileContracts txn)
     @ concat (map (emitted_by_resolution ext vc) (FileContractResolutions txn))"

definition created_by_transaction :: "externals \<Rightarrow> ValidationContext \<Rightarrow> Transaction \<Rightarrow> created list" where
  "created_by_transaction ext vc txn = assign_ids (txn_ID ext txn) 0 (emitted_by_transaction ext vc txn)"

definition created_by_block :: "externals \<Rightarrow> ValidationContext \<Rightarrow> Block \<Rightarrow> created list" where
  "created_by_block ext vc b =
     [CreatedSiacoin \<lparr>sce_StateElement = new_StateElement (Block_ID ext b) 0,
                      sce_SiacoinOutput = \<lparr>Value = BlockReward ext vc, Address = MinerAddress (Header b)\<rparr>,
                      MaturityHeight = vc_MaturityHeight ext vc\<rparr>]
     @ (if FoundationSubsidy ext vc \<noteq> 0
        then [CreatedSiacoin \<lparr>sce_StateElement = new_StateElement (Block_ID ext b) 1,
                 sce_SiacoinOutput = \<lparr>Value = FoundationSubsidy ext vc, Address = FoundationAddress vc\<rparr>,
                 MaturityHeight = vc_MaturityHeight ext vc\<rparr>]
        else [])"

definition created_in_order :: "externals \<Rightarrow> ValidationContext \<Rightarrow> Block \<Rightarrow> created list" where
  "created_in_order ext vc b =
     created_by_block ext vc b @ concat (map (created_by_transaction ext vc) (Transactions b))"

text \<open>
  The state of the loops of \<^verbatim>\<open>createdInBlock\<close> after they have emitted the elements \<open>cs\<close>.
\<close>

definition collect :: "created_state \<Rightarrow> created list \<Rightarrow> created_state" where
  "collect st cs =
     (case st of (index, sces, sfes, fces) \<Rightarrow>
        (index + of_nat (length cs), sces @ siacoins_of cs, sfes @ siafunds_of cs,
         fces @ filecontracts_of cs))"


section \<open>The delta of the retarget algorithm, in the words of the spec\<close>

text \<open>
  Section 4.A of the spec: the expected time is \<open>BLOCK_INTERVAL * height\<close>, the time that
  would have passed since genesis on target; the actual time is the timestamp of the
  header minus the genesis timestamp; delta is their difference, converted to integer
  seconds. The comments of \<^verbatim>\<open>adjustDifficulty\<close> say the same: the function works on integer
  seconds. This definition follows these words, in unbounded integers; it is compared
  with \<^verbatim>\<open>adjust_delta\<close> of the source further down.
\<close>

definition spec_delta :: "u64 \<Rightarrow> Duration \<Rightarrow> int" where
  "spec_delta height actualTime = tdiv (BlockInterval * int (unat height) - actualTime) Second"

section \<open>Concrete inputs\<close>

text \<open>
  An instance of the collaborators and a few contexts, headers and blocks, on which the
  theorems below are evaluated. Headers are identified by their nonce; the timestamp
  window has three slots.
\<close>

definition example_externals :: externals where
  "example_externals = \<lparr>
     header_ID = (\<lambda>h. unat (Nonce h)),
     txn_ID = (\<lambda>t. 7 + length (SiacoinOutputs t)),
     numTimestamps = (\<lambda>vc. min (uint (ci_Height (Index vc)) + 1) (int (length (PrevTimestamps vc)))),
     BlockReward = (\<lambda>vc. 300000),
     FoundationSubsidy = (\<lambda>vc. if ci_Height (Index vc) = 0 then 0 else 30000),
     vc_MaturityHeight = (\<lambda>vc. ci_Height (Index vc) + 145),
     FileContractTax = (\<lambda>vc fc. (Value (RenterOutput fc) + Value (HostOutput fc)) div 25),
     validateHeader = (\<lambda>vc h. if ParentIndex h = Index vc then None else Some ''wrong parent''),
     ValidateBlock = (\<lambda>vc b. if ParentIndex (Header b) = Index vc then None else Some ''wrong parent''),
     HasRenewal = (\<lambda>r. fc_terms (FinalRevision (Renewal r)) \<noteq> []),
     HasStorageProof = (\<lambda>r. StorageProof r \<noteq> []),
     HasFinalization = (\<lambda>r. fc_terms (Finalization r) \<noteq> []),
     SiacoinLeaf = (\<lambda>e s. \<lparr>leaf_StateElement = sce_StateElement e, ElementHash = Value (sce_SiacoinOutput e), Spent = s\<rparr>),
     SiafundLeaf = (\<lambda>e s. \<lparr>leaf_StateElement = sfe_StateElement e, ElementHash = unat (sf_Value (sfe_SiafundOutput e)), Spent = s\<rparr>),
     FileContractLeaf = (\<lambda>e s. \<lparr>leaf_StateElement = fce_StateElement e, ElementHash = MissedHostValue (fce_FileContract e), Spent = s\<rparr>),
     State_ApplyBlock = (\<lambda>acc updated created.
        (acc\<lparr>Trees := map ElementHash created @ Trees acc, NumLeaves := NumLeaves acc + of_nat (length created)\<rparr>,
         map (\<lambda>(i, l). l\<lparr>leaf_StateElement := (leaf_StateElement l)\<lparr>LeafIndex := NumLeaves acc + of_nat i\<rparr>\<rparr>)
             (enumerate 0 created),
         updated)),
     State_RevertBlock = (\<lambda>acc updated. (acc, updated)),
     History_ApplyBlock = (\<lambda>hist i. (ci_ID i # hist, [ci_ID i])),
     History_RevertBlock = (\<lambda>hist i. (hist, [ci_ID i]))\<rparr>"

definition example_vc0 :: ValidationContext where
  "example_vc0 = \<lparr>Index = \<lparr>ci_Height = 0, ci_ID = 0\<rparr>, State = \<lparr>Trees = [], NumLeaves = 0\<rparr>, History = [],
     TotalWork = 0, Difficulty = 1000000, OakWork = 0, OakTime = 0, GenesisTimestamp = 5000000000,
     SiafundPool = 0, FoundationAddress = 0, PrevTimestamps = [0, 0, 0]\<rparr>"

definition example_vc1 :: ValidationContext where
  "example_vc1 = \<lparr>Index = \<lparr>ci_Height = 0, ci_ID = 11\<rparr>, State = \<lparr>Trees = [], NumLeaves = 0\<rparr>, History = [],
     TotalWork = 0, Difficulty = 1000000, OakWork = 0, OakTime = 0, GenesisTimestamp = 5000000000,
     SiafundPool = 0, FoundationAddress = 0, PrevTimestamps = [5000000000, 0, 0]\<rparr>"

definition example_vc2 :: ValidationContext where
  "example_vc2 = \<lparr>Index = \<lparr>ci_Height = 1, ci_ID = 12\<rparr>, State = \<lparr>Trees = [], NumLeaves = 0\<rparr>, History = [],
     TotalWork = 1000000, Difficulty = 1004000, OakWork = 1000000, OakTime = 1000000000,
     GenesisTimestamp = 5000000000,
     SiafundPool = 0, FoundationAddress = 0, PrevTimestamps = [5000000000, 6000000000, 0]\<rparr>"

definition example_h0 :: BlockHeader where
  "example_h0 = \<lparr>Height = 0, ParentID = 0, Nonce = 11, Timestamp = 5000000000, MinerAddress = 1, Commitment = 0\<rparr>"

definition example_h1 :: BlockHeader where
  "example_h1 = \<lparr>Height = 1, ParentID = 11, Nonce = 12, Timestamp = 6000000000, MinerAddress = 1, Commitment = 0\<rparr>"

definition example_h1_bad :: BlockHeader where
  "example_h1_bad = \<lparr>Height = 1, ParentID = 999, Nonce = 12, Timestamp = 6000000000, MinerAddress = 1, Commitment = 0\<rparr>"

definition example_bad_block :: Block where
  "example_bad_block = \<lparr>Header = example_h1_bad, Transactions = []\<rparr>"

definition example_genesis_block :: Block where
  "example_genesis_block = \<lparr>Header = example_h0, Transactions = []\<rparr>"

definition example_txn :: Transaction where
  "example_txn = \<lparr>
     SiacoinInputs = [],
     SiacoinOutputs = [\<lparr>Value = 50, Address = 2\<rparr>],
     SiafundInputs =
       [\<lparr>sfi_Parent =
            \<lparr>sfe_StateElement = \<lparr>ID = \<lparr>Source = 3, eid_Index = 0\<rparr>, LeafIndex = 4, MerkleProof = []\<rparr>,
             sfe_SiafundOutput = \<lparr>sf_Value = 3, sf_Address = 2\<rparr>,
             ClaimStart = 100000\<rparr>,
          ClaimAddress = 42\<rparr>],
     SiafundOutputs = [\<lparr>sf_Value = 3, sf_Address = 5\<rparr>],
     FileContracts = [],
     FileContractRevisions = [],
     FileContractResolutions = [],
     NewFoundationAddress = 0,
     MinerFee = 0\<rparr>"

definition example_block1 :: Block where
  "example_block1 = \<lparr>Header = example_h1, Transactions = [example_txn]\<rparr>"

definition example_sc :: ScratchChain where
  "example_sc = NewScratchChain example_vc1"

definition example_ephemeral :: SiacoinElement where
  "example_ephemeral =
     \<lparr>sce_StateElement = \<lparr>ID = \<lparr>Source = 3, eid_Index = 0\<rparr>, LeafIndex = EphemeralLeafIndex,
                           MerkleProof = []\<rparr>,
      sce_SiacoinOutput = \<lparr>Value = 50, Address = 2\<rparr>, MaturityHeight = 0\<rparr>"

definition example_ru :: RevertUpdate where
  "example_ru = \<lparr>ru_ElementRevertUpdate = [], ru_HistoryRevertUpdate = [], ru_Context = example_vc1,
     ru_SpentSiacoins = [], ru_SpentSiafunds = [], ru_RevisedFileContracts = [],
     ru_ResolvedFileContracts = [], ru_NewSiacoinElements = [], ru_NewSiafundElements = [],
     ru_NewFileContracts = []\<rparr>"

section \<open>Properties of the difficulty controller\<close>

lemma Work_Cmp_less: "Work_Cmp w v < 0 \<longleftrightarrow> w < v"
  by (simp add: Work_Cmp_def)

lemma Work_Cmp_greater: "Work_Cmp w v > 0 \<longleftrightarrow> w > v"
  by (simp add: Work_Cmp_def)

lemma adjustDifficulty_bounds:
  "Work_Sub difficulty (Work_Div64 difficulty 250)
     \<le> adjustDifficulty difficulty height actualTime oakTime oakWork
   \<and> adjustDifficulty difficulty height actualTime oakTime oakWork
     \<le> Work_Add difficulty (Work_Div64 difficulty 250)"
proof -
  have "Work_Sub difficulty (Work_Div64 difficulty 250)
          \<le> Work_Add difficulty (Work_Div64 difficulty 250)"
    by (simp add: Work_Sub_def Work_Add_def)
  then show ?thesis
    unfolding adjustDifficulty_def Let_def Work_Cmp_less Work_Cmp_greater
    by auto
qed

lemma applyHeader_Difficulty:
  assumes "Height h \<noteq> 0" and "applyHeader ext vc h = Inr vc'"
  shows "\<exists>height actualTime oakTime oakWork.
           Difficulty vc' = adjustDifficulty (Difficulty vc) height actualTime oakTime oakWork"
  using assms
  by (auto simp: applyHeader_def Let_def split: if_splits prod.splits) blast+

lemma i64_id: "- (2 ^ 63) \<le> x \<Longrightarrow> x < 2 ^ 63 \<Longrightarrow> i64 x = x"
  by (simp add: i64_def)

lemma blockInterval_600: "blockInterval = 600"
  by (simp add: blockInterval_def BlockInterval_def Minute_def Second_def tdiv_def)

text \<open>
  Given a delta, the shift of the source is the signed square scaled by
  \<open>10 / (10000 \<cdot> 10000)\<close> as long as the products fit in 64 bits, and the target block
  time always lies between a third and three times the block interval.
\<close>

lemma adjust_shift_exact:
  assumes "delta * delta * 10 < 2 ^ 63"
  shows "adjust_shift delta = tdiv (sgn delta * (delta * delta) * 10) (10000 * 10000)"
proof -
  have sq: "0 \<le> delta * delta" by simp
  have le: "delta * delta \<le> delta * delta * 10" using sq by linarith
  have a: "i64 (delta * delta) = delta * delta"
    using sq le assms by (intro i64_id) linarith+
  have b: "i64 (- (delta * delta)) = - (delta * delta)"
    using sq le assms by (intro i64_id) linarith+
  have c: "i64 (delta * delta * 10) = delta * delta * 10"
    using sq le assms by (intro i64_id) linarith+
  have d: "i64 (- (delta * delta) * 10) = - (delta * delta) * 10"
    using sq le assms by (intro i64_id) linarith+
  show ?thesis
  proof (cases "delta < 0")
    case True
    then show ?thesis
      unfolding adjust_shift_def Let_def a by (simp only: if_True b d) (simp add: sgn_if)
  next
    case False
    then show ?thesis
      unfolding adjust_shift_def Let_def a
      by (simp only: if_False c) (auto simp add: sgn_if tdiv_def)
  qed
qed

lemma adjust_targetBlockTime_clamped:
  "tdiv blockInterval 3 \<le> adjust_targetBlockTime shift
   \<and> adjust_targetBlockTime shift \<le> blockInterval * 3"
  by (simp add: adjust_targetBlockTime_def blockInterval_600 tdiv_def Let_def)

text \<open>Evaluation of the controller on the concrete inputs.\<close>

lemma ex_numTimestamps:
  "numTimestamps example_externals vc
   = min (uint (ci_Height (Index vc)) + 1) (int (length (PrevTimestamps vc)))"
  by (simp add: example_externals_def)

lemma ex_header_ID: "header_ID example_externals h = unat (Nonce h)"
  by (simp add: example_externals_def)

lemma ex_adjust_delta: "adjust_delta 1 1000000000 = 0"
  by (simp add: adjust_delta_def blockInterval_600 Second_def tdiv_def i64_def)

lemma ex_adjust_shift: "adjust_shift 0 = 0"
  by (simp add: adjust_shift_def tdiv_def i64_def)

lemma ex_adjust_targetBlockTime: "adjust_targetBlockTime 0 = 600"
  by (simp add: adjust_targetBlockTime_def blockInterval_600 tdiv_def i64_def)

lemma ex_adjustDifficulty: "adjustDifficulty 1000000 1 1000000000 1000000000 1000000 = 1004000"
  by (simp add: adjustDifficulty_def ex_adjust_delta ex_adjust_shift ex_adjust_targetBlockTime
        Second_def tdiv_def Work_Add_def Work_Sub_def Work_Div64_def Work_Mul64_def Work_Cmp_def)

lemma ex_updateOakTotals: "updateOakTotals 0 1000000000 0 1000000 = (1000000000, 1000000)"
  by (simp add: updateOakTotals_def tdiv_def i64_def Work_Add_def Work_Sub_def Work_Div64_def)

lemma ex_Time_Sub: "Time_Sub 6000000000 5000000000 = 1000000000"
  by (simp add: Time_Sub_def maxDuration_def minDuration_def)

lemma ex_applyHeader_0: "applyHeader example_externals example_vc0 example_h0 = Inr example_vc1"
  by (simp add: applyHeader_def example_vc0_def example_vc1_def example_h0_def in_range_def
        Header_Index_def ex_header_ID)

lemma ex_applyHeader_1: "applyHeader example_externals example_vc1 example_h1 = Inr example_vc2"
  by (simp add: applyHeader_def example_vc1_def example_vc2_def example_h1_def in_range_def
        Header_Index_def ex_header_ID ex_numTimestamps ex_adjustDifficulty ex_updateOakTotals
        ex_Time_Sub Work_Add_def)

text \<open>
  C4. The difficulty returned by \<^verbatim>\<open>adjustDifficulty\<close> differs from the previous difficulty,
  its first argument, by at most the previous difficulty divided by 250:
  \<open>old - old/250 \<le> new \<le> old + old/250\<close>, for every input; and every application of a
  header of non-zero height that returns leaves the context with a difficulty within
  this distance of the difficulty it had.
\<close>

theorem adjustDifficulty_step_bounded:
  "Work_Sub difficulty (Work_Div64 difficulty 250)
     \<le> adjustDifficulty difficulty height actualTime oakTime oakWork
   \<and> adjustDifficulty difficulty height actualTime oakTime oakWork
     \<le> Work_Add difficulty (Work_Div64 difficulty 250)
   \<and> (Height h \<noteq> 0 \<longrightarrow> applyHeader ext vc h = Inr vc' \<longrightarrow>
        Difficulty vc - Difficulty vc div 250 \<le> Difficulty vc'
        \<and> Difficulty vc' \<le> Difficulty vc + Difficulty vc div 250)"
proof -
  have "Difficulty vc - Difficulty vc div 250 \<le> Difficulty vc'
        \<and> Difficulty vc' \<le> Difficulty vc + Difficulty vc div 250"
    if "Height h \<noteq> 0" and "applyHeader ext vc h = Inr vc'"
  proof -
    from applyHeader_Difficulty [OF that] obtain height actualTime oakTime oakWork
      where "Difficulty vc' = adjustDifficulty (Difficulty vc) height actualTime oakTime oakWork"
      by blast
    with adjustDifficulty_bounds [of "Difficulty vc" height actualTime oakTime oakWork]
    show ?thesis by (simp add: Work_Sub_def Work_Add_def Work_Div64_def)
  qed
  with adjustDifficulty_bounds [of difficulty height actualTime oakTime oakWork]
  show ?thesis by blast
qed

text \<open>On the concrete inputs the difficulty goes from 1000000 to the upper bound 1004000.\<close>

theorem adjustDifficulty_step_bounded_witness:
  "Height example_h1 \<noteq> 0
   \<and> applyHeader example_externals example_vc1 example_h1 = Inr example_vc2
   \<and> Difficulty example_vc1 = 1000000 \<and> Difficulty example_vc2 = 1004000
   \<and> Difficulty example_vc1 - Difficulty example_vc1 div 250 \<le> Difficulty example_vc2
   \<and> Difficulty example_vc2 \<le> Difficulty example_vc1 + Difficulty example_vc1 div 250"
proof -
  have h: "Height example_h1 \<noteq> 0" by (simp add: example_h1_def)
  from adjustDifficulty_step_bounded [of _ _ _ _ _ example_h1 example_externals example_vc1 example_vc2]
       h ex_applyHeader_1
  show ?thesis by (simp add: example_vc1_def example_vc2_def)
qed

text \<open>Evaluation of the retarget steps for a chain that is exactly on schedule.\<close>

lemma ex_spec_delta: "spec_delta 1000 (600000 * Second) = 0"
  by (simp add: spec_delta_def BlockInterval_def Minute_def Second_def tdiv_def)

lemma ex_adjust_delta_on_schedule: "adjust_delta 1000 (600000 * Second) = - 599999"
  by (simp add: adjust_delta_def blockInterval_600 Second_def tdiv_def i64_def)

lemma ex_adjust_shift_on_schedule: "adjust_shift (- 599999) = - 35999"
  by (simp add: adjust_shift_def tdiv_def i64_def)

lemma ex_adjust_targetBlockTime_on_schedule: "adjust_targetBlockTime (- 35999) = 200"
  by (simp add: adjust_targetBlockTime_def blockInterval_600 tdiv_def i64_def)

text \<open>
  C5. The claim takes delta as the expected time minus the actual time, in integer
  seconds. The code does not compute this delta: \<^verbatim>\<open>expectedTime\<close> is a count of seconds
  (\<^verbatim>\<open>blockInterval\<close> is 600) and \<^verbatim>\<open>actualTime\<close> a count of nanoseconds, and the source subtracts
  the one from the other before it divides by \<^verbatim>\<open>time.Second\<close>. For a header of height 1000
  whose timestamp is 600000 seconds after the genesis timestamp, exactly on schedule,
  the delta of the claim is 0, its shift 0 and its target block time 600 seconds; the
  code computes delta -599999 and shift -35999, and clamps the target block time to 200
  seconds.
\<close>

theorem adjust_delta_mixes_units:
  "spec_delta 1000 (600000 * Second) = 0
   \<and> adjust_delta 1000 (600000 * Second) = - 599999
   \<and> adjust_shift (adjust_delta 1000 (600000 * Second)) = - 35999
   \<and> adjust_targetBlockTime (adjust_shift (adjust_delta 1000 (600000 * Second))) = 200
   \<and> adjust_targetBlockTime (adjust_shift (spec_delta 1000 (600000 * Second))) = 600"
  by (simp add: ex_spec_delta ex_adjust_delta_on_schedule ex_adjust_shift_on_schedule
        ex_adjust_targetBlockTime_on_schedule ex_adjust_shift ex_adjust_targetBlockTime)

text \<open>
  The same slip makes the 64-bit products wrap once the chain is about 30.4 years old:
  for a header of height 1600000 whose timestamp is \<open>10\<^sup>1\<^sup>8\<close> nanoseconds after the
  genesis timestamp the delta in seconds is -40000000, the code computes -999999999 and
  a positive shift.
\<close>

lemma adjust_shift_sign_lost:
  "spec_delta 1600000 (10 ^ 18) = - 40000000
   \<and> adjust_delta 1600000 (10 ^ 18) = - 999999999
   \<and> adjust_shift (- 999999999) = 84467440937"
  by (simp add: spec_delta_def BlockInterval_def Minute_def adjust_delta_def adjust_shift_def
        blockInterval_600 i64_def tdiv_def Second_def Let_def)

section \<open>Properties of the header applier\<close>

lemma applyHeader_TotalWork:
  "applyHeader ext vc h = Inr vc' \<Longrightarrow>
   TotalWork vc' = (if Height h = 0 then TotalWork vc else TotalWork vc + Difficulty vc)"
  by (auto simp: applyHeader_def Let_def Work_Add_def split: if_splits prod.splits)

lemma applyHeader_genesis:
  "Height h = 0 \<Longrightarrow> applyHeader ext vc h = Inr vc' \<Longrightarrow>
   TotalWork vc' = TotalWork vc \<and> Difficulty vc' = Difficulty vc
   \<and> OakTime vc' = OakTime vc \<and> OakWork vc' = OakWork vc"
  by (auto simp: applyHeader_def split: if_splits)

lemma applyHeaders_TotalWork:
  "applyHeaders ext vc hs = Inr vc' \<Longrightarrow>
   TotalWork vc' = TotalWork vc + sum_list (difficulties_applied ext vc hs)"
proof (induction hs arbitrary: vc)
  case Nil
  then show ?case by simp
next
  case (Cons h hs)
  from Cons.prems obtain vc1
    where 1: "applyHeader ext vc h = Inr vc1" and 2: "applyHeaders ext vc1 hs = Inr vc'"
    by (auto split: sum.splits)
  from Cons.IH [OF 2] applyHeader_TotalWork [OF 1] 1 show ?case by simp
qed

lemma applyHeader_panic: "applyHeader ext vc h = Inl p \<Longrightarrow> p = IndexOutOfRange"
  by (auto simp: applyHeader_def Let_def split: if_splits prod.splits)

text \<open>
  C6. After a sequence of headers has been applied to a context, the total work of the
  context is the total work it started with (zero for a genesis context) plus the sum of
  the difficulty values the context held at the moment each header of non-zero height was
  applied. A header of height zero adds nothing and leaves the total work, the
  difficulty and the two decayed totals as they were.
\<close>

theorem total_work_is_sum_of_difficulties:
  "(applyHeaders ext vc hs = Inr vc' \<longrightarrow>
      TotalWork vc' = TotalWork vc + sum_list (difficulties_applied ext vc hs))
   \<and> (Height h = 0 \<longrightarrow> applyHeader ext vc h = Inr vc1 \<longrightarrow>
        TotalWork vc1 = TotalWork vc \<and> Difficulty vc1 = Difficulty vc
        \<and> OakTime vc1 = OakTime vc \<and> OakWork vc1 = OakWork vc)"
  using applyHeaders_TotalWork [of ext vc hs vc'] applyHeader_genesis [of h ext vc vc1]
  by blast

text \<open>
  The genesis header and one more header applied to the empty context: the total work
  is the difficulty 1000000 held when the second header was applied.
\<close>

theorem total_work_is_sum_of_difficulties_witness:
  "applyHeaders example_externals example_vc0 [example_h0, example_h1] = Inr example_vc2
   \<and> difficulties_applied example_externals example_vc0 [example_h0, example_h1] = [1000000]
   \<and> TotalWork example_vc0 = 0
   \<and> TotalWork example_vc2 = 1000000
   \<and> TotalWork example_vc1 = TotalWork example_vc0
   \<and> Difficulty example_vc1 = Difficulty example_vc0"
proof -
  have run: "applyHeaders example_externals example_vc0 [example_h0, example_h1] = Inr example_vc2"
    by (simp add: ex_applyHeader_0 ex_applyHeader_1)
  have h0: "Height example_h0 = 0" by (simp add: example_h0_def)
  have h1: "Height example_h1 \<noteq> 0" by (simp add: example_h1_def)
  have ds: "difficulties_applied example_externals example_vc0 [example_h0, example_h1] = [1000000]"
    by (simp add: ex_applyHeader_0 ex_applyHeader_1 h0 h1) (simp add: example_vc1_def)
  from total_work_is_sum_of_difficulties
         [of example_externals example_vc0 "[example_h0, example_h1]" example_vc2
             example_h0 example_vc1]
       run h0 ex_applyHeader_0 ds
  show ?thesis by (simp add: example_vc0_def)
qed

section \<open>Properties of the block-diff computer\<close>

lemma siacoins_of_append: "siacoins_of (xs @ ys) = siacoins_of xs @ siacoins_of ys"
  by (induction xs rule: siacoins_of.induct) simp_all

lemma siafunds_of_append: "siafunds_of (xs @ ys) = siafunds_of xs @ siafunds_of ys"
  by (induction xs rule: siafunds_of.induct) simp_all

lemma filecontracts_of_append: "filecontracts_of (xs @ ys) = filecontracts_of xs @ filecontracts_of ys"
  by (induction xs rule: filecontracts_of.induct) simp_all

lemma assign_ids_Nil: "assign_ids src n [] = []"
  by (simp add: assign_ids_def)

lemma assign_ids_Cons:
  "assign_ids src n (em # ems) = em (new_StateElement src (of_nat n)) # assign_ids src (Suc n) ems"
  by (simp add: assign_ids_def)

lemma length_assign_ids: "length (assign_ids src n ems) = length ems"
  by (simp add: assign_ids_def)

lemma assign_ids_append:
  "assign_ids src n (xs @ ys) = assign_ids src n xs @ assign_ids src (n + length xs) ys"
  by (simp add: assign_ids_def enumerate_append_eq)

lemma collect_Nil: "collect st [] = st"
  by (cases st) (simp add: collect_def)

lemma collect_collect: "collect (collect st xs) ys = collect st (xs @ ys)"
  by (cases st)
     (simp add: collect_def siacoins_of_append siafunds_of_append filecontracts_of_append)

lemma nextElement_eq: "nextElement src k = (new_StateElement src k, 1 + k)"
  by (simp add: nextElement_def new_StateElement_def Let_def)

lemma foldl_collect:
  assumes step: "\<And>n sces sfes fces x.
      f (of_nat n, sces, sfes, fces) x = collect (of_nat n, sces, sfes, fces) (assign_ids src n (em x))"
  shows "foldl f (of_nat n, sces, sfes, fces) xs
         = collect (of_nat n, sces, sfes, fces) (assign_ids src n (concat (map em xs)))"
proof (induction xs arbitrary: n sces sfes fces)
  case Nil
  show ?case by (simp add: assign_ids_Nil collect_Nil)
next
  case (Cons x xs)
  let ?cs = "assign_ids src n (em x)"
  have "f (of_nat n, sces, sfes, fces) x
        = (of_nat (n + length (em x)), sces @ siacoins_of ?cs, sfes @ siafunds_of ?cs,
           fces @ filecontracts_of ?cs)"
    by (simp add: step collect_def length_assign_ids)
  then have "foldl f (of_nat n, sces, sfes, fces) (x # xs)
        = collect (of_nat (n + length (em x)), sces @ siacoins_of ?cs, sfes @ siafunds_of ?cs,
           fces @ filecontracts_of ?cs) (assign_ids src (n + length (em x)) (concat (map em xs)))"
    by (simp only: foldl_Cons Cons.IH)
  also have "\<dots> = collect (collect (of_nat n, sces, sfes, fces) ?cs)
                     (assign_ids src (n + length (em x)) (concat (map em xs)))"
    by (simp add: collect_def length_assign_ids)
  also have "\<dots> = collect (of_nat n, sces, sfes, fces) (assign_ids src n (concat (map em (x # xs))))"
    by (simp add: collect_collect assign_ids_append)
  finally show ?case .
qed

lemma loop_SiacoinOutputs:
  "foldl (created_SiacoinOutput src) (of_nat n, sces, sfes, fces) outs
   = collect (of_nat n, sces, sfes, fces)
       (assign_ids src n (concat (map (\<lambda>out. [\<lambda>se. CreatedSiacoin
           \<lparr>sce_StateElement = se, sce_SiacoinOutput = out, MaturityHeight = 0\<rparr>]) outs)))"
  by (rule foldl_collect)
     (simp add: nextElement_eq collect_def assign_ids_Cons assign_ids_Nil)

lemma loop_SiafundInputs:
  "foldl (created_SiafundInput ext vc src) (of_nat n, sces, sfes, fces) inps
   = collect (of_nat n, sces, sfes, fces)
       (assign_ids src n (concat (map (\<lambda>inp. [\<lambda>se. CreatedSiacoin
           \<lparr>sce_StateElement = se, sce_SiacoinOutput = claim_output vc inp,
            MaturityHeight = vc_MaturityHeight ext vc\<rparr>]) inps)))"
  by (rule foldl_collect)
     (simp add: nextElement_eq collect_def assign_ids_Cons assign_ids_Nil claim_output_def
        Currency_Sub_def Currency_Div64_def Currency_Mul64_def)

lemma loop_SiafundOutputs:
  "foldl (created_SiafundOutput vc src) (of_nat n, sces, sfes, fces) outs
   = collect (of_nat n, sces, sfes, fces)
       (assign_ids src n (concat (map (\<lambda>out. [\<lambda>se. CreatedSiafund
           \<lparr>sfe_StateElement = se, sfe_SiafundOutput = out, ClaimStart = SiafundPool vc\<rparr>]) outs)))"
  by (rule foldl_collect)
     (simp add: nextElement_eq collect_def assign_ids_Cons assign_ids_Nil)

lemma loop_FileContracts:
  "foldl (created_FileContract src) (of_nat n, sces, sfes, fces) fcs
   = collect (of_nat n, sces, sfes, fces)
       (assign_ids src n (concat (map (\<lambda>fc. [\<lambda>se. CreatedFileContract
           \<lparr>fce_StateElement = se, fce_FileContract = fc\<rparr>]) fcs)))"
  by (rule foldl_collect)
     (simp add: nextElement_eq collect_def assign_ids_Cons assign_ids_Nil)

lemma step_Resolution:
  "created_Resolution ext vc src (of_nat n, sces, sfes, fces) fcr
   = collect (of_nat n, sces, sfes, fces) (assign_ids src n (emitted_by_resolution ext vc fcr))"
proof (cases "HasRenewal ext fcr")
  case True
  then show ?thesis
    by (simp add: nextElement_eq collect_def assign_ids_Cons assign_ids_Nil
          emitted_by_resolution_def resolution_payouts_def Currency_Sub_def Let_def)
next
  case False
  then show ?thesis
    by (simp add: nextElement_eq collect_def assign_ids_Cons assign_ids_Nil
          emitted_by_resolution_def resolution_payouts_def Let_def)
qed

lemma loop_Resolutions:
  "foldl (created_Resolution ext vc src) (of_nat n, sces, sfes, fces) fcrs
   = collect (of_nat n, sces, sfes, fces)
       (assign_ids src n (concat (map (emitted_by_resolution ext vc) fcrs)))"
  by (rule foldl_collect) (rule step_Resolution)

lemma concat_map_single: "concat (map (\<lambda>x. [f x]) xs) = map f xs"
  by (induction xs) simp_all

lemma collect_of_nat:
  "collect (of_nat n, sces, sfes, fces) cs
   = (of_nat (n + length cs), sces @ siacoins_of cs, sfes @ siafunds_of cs, fces @ filecontracts_of cs)"
  by (simp add: collect_def)

lemma created_Transaction_eq:
  "created_Transaction ext vc (sces, sfes, fces) txn
   = (sces @ siacoins_of (created_by_transaction ext vc txn),
      sfes @ siafunds_of (created_by_transaction ext vc txn),
      fces @ filecontracts_of (created_by_transaction ext vc txn))"
proof -
  let ?src = "txn_ID ext txn"
  have 0: "(0::u64) = of_nat 0" by simp
  show ?thesis
    unfolding created_Transaction.simps Let_def
    apply (subst 0)
    apply (simp only: loop_SiacoinOutputs collect_of_nat loop_SiafundInputs loop_SiafundOutputs
        loop_FileContracts loop_Resolutions length_assign_ids)
    apply (simp add: created_by_transaction_def emitted_by_transaction_def assign_ids_append
        siacoins_of_append siafunds_of_append filecontracts_of_append concat_map_single
        add.assoc)
    done
qed

lemma foldl_created_Transaction:
  "foldl (created_Transaction ext vc) (sces, sfes, fces) txns
   = (sces @ siacoins_of (concat (map (created_by_transaction ext vc) txns)),
      sfes @ siafunds_of (concat (map (created_by_transaction ext vc) txns)),
      fces @ filecontracts_of (concat (map (created_by_transaction ext vc) txns)))"
proof (induction txns arbitrary: sces sfes fces)
  case Nil
  show ?case by simp
next
  case (Cons txn txns)
  show ?case
    by (simp only: foldl_Cons created_Transaction_eq Cons.IH)
       (simp add: siacoins_of_append siafunds_of_append filecontracts_of_append)
qed

text \<open>
  C2. \<^verbatim>\<open>createdInBlock\<close> returns, kind by kind, the elements of the one sequence that the
  spec describes: first the siacoin output with the id \<open>(block id, 0)\<close> that pays the
  block reward to the miner address; then, only if the foundation subsidy is not zero,
  the siacoin output with the id \<open>(block id, 1)\<close> that pays it to the foundation
  address; then, for each transaction in order, elements with the ids
  \<open>(transaction id, k)\<close>, where \<open>k\<close> starts at 0 for each transaction and counts through
  its siacoin outputs, the claim outputs of its siafund inputs, its siafund outputs, its
  new file contracts and, per resolution, the initial revision of a renewal followed by
  the renter and host payouts.
\<close>

theorem createdInBlock_order:
  "createdInBlock ext vc b
   = (siacoins_of (created_in_order ext vc b),
      siafunds_of (created_in_order ext vc b),
      filecontracts_of (created_in_order ext vc b))"
  by (simp add: createdInBlock_def Let_def foldl_created_Transaction created_in_order_def
        created_by_block_def new_StateElement_def Currency_IsZero_def
        siacoins_of_append siafunds_of_append filecontracts_of_append)

lemma siacoins_of_mem: "CreatedSiacoin e \<in> set cs \<Longrightarrow> e \<in> set (siacoins_of cs)"
  by (induction cs rule: siacoins_of.induct) auto

lemma nth_assign_ids:
  "j < length ems \<Longrightarrow> assign_ids src n ems ! j = (ems ! j) (new_StateElement src (of_nat (n + j)))"
  by (simp add: assign_ids_def nth_enumerate_eq)

lemma fst_createdInBlock:
  "fst (createdInBlock ext vc b) = siacoins_of (created_in_order ext vc b)"
  by (simp add: createdInBlock_def Let_def foldl_created_Transaction created_in_order_def
        created_by_block_def new_StateElement_def Currency_IsZero_def
        siacoins_of_append siafunds_of_append filecontracts_of_append)

lemma claim_in_created_by_transaction:
  assumes "j < length (SiafundInputs txn)"
  shows "CreatedSiacoin
           \<lparr>sce_StateElement =
              new_StateElement (txn_ID ext txn) (of_nat (length (SiacoinOutputs txn) + j)),
            sce_SiacoinOutput = claim_output vc (SiafundInputs txn ! j),
            MaturityHeight = vc_MaturityHeight ext vc\<rparr>
         \<in> set (created_by_transaction ext vc txn)"
proof -
  let ?B = "map (\<lambda>inp se. CreatedSiacoin \<lparr>sce_StateElement = se,
                 sce_SiacoinOutput = claim_output vc inp,
                 MaturityHeight = vc_MaturityHeight ext vc\<rparr>) (SiafundInputs txn)"
  let ?cs = "assign_ids (txn_ID ext txn) (length (SiacoinOutputs txn)) ?B"
  have len: "j < length ?cs" using assms by (simp add: length_assign_ids)
  have "?cs ! j = CreatedSiacoin
           \<lparr>sce_StateElement =
              new_StateElement (txn_ID ext txn) (of_nat (length (SiacoinOutputs txn) + j)),
            sce_SiacoinOutput = claim_output vc (SiafundInputs txn ! j),
            MaturityHeight = vc_MaturityHeight ext vc\<rparr>"
    using assms by (simp add: nth_assign_ids)
  with len have "CreatedSiacoin
           \<lparr>sce_StateElement =
              new_StateElement (txn_ID ext txn) (of_nat (length (SiacoinOutputs txn) + j)),
            sce_SiacoinOutput = claim_output vc (SiafundInputs txn ! j),
            MaturityHeight = vc_MaturityHeight ext vc\<rparr> \<in> set ?cs"
    by (metis nth_mem)
  then show ?thesis
    by (simp add: created_by_transaction_def emitted_by_transaction_def assign_ids_append)
qed

text \<open>
  C7. For every siafund input of every transaction of a block, at position \<open>j\<close> among the
  siafund inputs of its transaction, \<^verbatim>\<open>createdInBlock\<close> emits a siacoin element that pays
  \<open>(siafund_pool - claim_start) / SIAFUND_COUNT * value\<close>, dividing before multiplying, to
  the claim address of the input, with the maturity height of the context; its id counts
  on from the siacoin outputs of the transaction.
\<close>

theorem claim_output_created:
  assumes "txn \<in> set (Transactions b)" and "j < length (SiafundInputs txn)"
  shows "\<lparr>sce_StateElement =
            \<lparr>ID = \<lparr>Source = txn_ID ext txn,
                    eid_Index = of_nat (length (SiacoinOutputs txn) + j)\<rparr>,
             LeafIndex = 0, MerkleProof = []\<rparr>,
          sce_SiacoinOutput =
            \<lparr>Value = (SiafundPool vc - ClaimStart (sfi_Parent (SiafundInputs txn ! j))) div 10000
                      * unat (sf_Value (sfe_SiafundOutput (sfi_Parent (SiafundInputs txn ! j)))),
             Address = ClaimAddress (SiafundInputs txn ! j)\<rparr>,
          MaturityHeight = vc_MaturityHeight ext vc\<rparr>
         \<in> set (fst (createdInBlock ext vc b))"
proof -
  from claim_in_created_by_transaction [OF assms(2), of ext vc] assms(1)
  have "CreatedSiacoin
           \<lparr>sce_StateElement =
              new_StateElement (txn_ID ext txn) (of_nat (length (SiacoinOutputs txn) + j)),
            sce_SiacoinOutput = claim_output vc (SiafundInputs txn ! j),
            MaturityHeight = vc_MaturityHeight ext vc\<rparr>
         \<in> set (created_in_order ext vc b)"
    by (auto simp: created_in_order_def)
  from siacoins_of_mem [OF this] show ?thesis
    by (simp add: fst_createdInBlock new_StateElement_def claim_output_def SiafundCount_def)
qed

text \<open>
  A transaction with one siacoin output and one siafund input of value 3 and claim start
  100000, in a context whose pool holds 350000: the claim pays 25 * 3.
\<close>

theorem claim_output_created_witness:
  "example_txn \<in> set (Transactions example_block1)
   \<and> (0::nat) < length (SiafundInputs example_txn)
   \<and> \<lparr>sce_StateElement = \<lparr>ID = \<lparr>Source = 8, eid_Index = 1\<rparr>, LeafIndex = 0, MerkleProof = []\<rparr>,
       sce_SiacoinOutput = \<lparr>Value = (350000 - 100000) div 10000 * 3, Address = 42\<rparr>,
       MaturityHeight = 145\<rparr>
      \<in> set (fst (createdInBlock example_externals (example_vc1\<lparr>SiafundPool := 350000\<rparr>)
                    example_block1))"
proof -
  have m: "example_txn \<in> set (Transactions example_block1)"
    by (simp add: example_block1_def)
  have l: "(0::nat) < length (SiafundInputs example_txn)"
    by (simp add: example_txn_def)
  from claim_output_created [OF m l, of example_externals "example_vc1\<lparr>SiafundPool := 350000\<rparr>"] m l
  show ?thesis
    by (simp add: example_txn_def example_externals_def example_vc1_def)
qed

section \<open>Properties of the apply/revert engine\<close>

lemma ApplyBlock_non_child:
  "ApplyBlock ext vc b = Inl CannotApplyNonChildBlock
   \<longleftrightarrow> ci_Height (Index vc) > 0 \<and> Index vc \<noteq> ParentIndex (Header b)"
proof (cases "ci_Height (Index vc) > 0 \<and> Index vc \<noteq> ParentIndex (Header b)")
  case True
  then show ?thesis by (simp add: ApplyBlock_def)
next
  case False
  have "ApplyBlock ext vc b \<noteq> Inl CannotApplyNonChildBlock"
  proof
    assume a: "ApplyBlock ext vc b = Inl CannotApplyNonChildBlock"
    from a False obtain v where "applyHeader ext v (Header b) = Inl CannotApplyNonChildBlock"
      by (auto simp: ApplyBlock_def Let_def split: prod.splits sum.splits if_splits)
    then show False using applyHeader_panic by blast
  qed
  with False show ?thesis by blast
qed

lemma RevertBlock_genesis:
  "RevertBlock ext vc b = Inl CannotRevertGenesisBlock \<longleftrightarrow> Height (Header b) = 0"
  by (auto simp: RevertBlock_def Let_def split: prod.splits)

lemma RevertBlock_non_child:
  "RevertBlock ext vc b = Inl CannotRevertNonChildBlock
   \<longleftrightarrow> Height (Header b) \<noteq> 0 \<and> Index vc \<noteq> ParentIndex (Header b)"
  by (auto simp: RevertBlock_def Let_def split: prod.splits)

text \<open>
  The context of the update that \<^verbatim>\<open>RevertBlock\<close> returns is the context it was given, with
  the history and the accumulator that the two revert methods leave in it.
\<close>

lemma RevertBlock_Context:
  assumes "Height (Header b) \<noteq> 0" and "Index vc = ParentIndex (Header b)"
  shows "\<exists>ru. RevertBlock ext vc b = Inr ru
     \<and> ru_Context ru =
         vc\<lparr>History := fst (History_RevertBlock ext (History vc) (Block_Index ext b)),
             State := fst (State_RevertBlock ext (State vc)
                        (snd (snd (snd (snd (updatedInBlock ext vc b False))))))\<rparr>"
  using assms by (simp add: RevertBlock_def Let_def split: prod.splits)

text \<open>Evaluation of \<^verbatim>\<open>ApplyBlock\<close> on the block whose parent id is not the id of the tip.\<close>

lemma ex_updated_bad: "updatedInBlock example_externals vc example_bad_block a = ([], [], [], [], [])"
  by (simp add: updatedInBlock_def example_bad_block_def)

lemma ex_created_bad:
  "createdInBlock example_externals example_vc1 example_bad_block =
     ([\<lparr>sce_StateElement = \<lparr>ID = \<lparr>Source = 12, eid_Index = 0\<rparr>, LeafIndex = 0, MerkleProof = []\<rparr>,
        sce_SiacoinOutput = \<lparr>Value = 300000, Address = 1\<rparr>, MaturityHeight = 145\<rparr>], [], [])"
  by (simp add: createdInBlock_def Let_def example_bad_block_def example_h1_bad_def Block_ID_def
        example_externals_def example_vc1_def Currency_IsZero_def)

lemma ex_spent_bad: "spent_ids example_bad_block = []"
  by (simp add: spent_ids_def example_bad_block_def)

lemma ex_applyHeader_bad:
  "applyHeader example_externals (example_vc1\<lparr>State := s, History := hi\<rparr>) example_h1_bad
   = Inr (example_vc2\<lparr>State := s, History := hi\<rparr>)"
  by (simp add: applyHeader_def example_vc1_def example_vc2_def example_h1_bad_def in_range_def
        Header_Index_def ex_header_ID ex_numTimestamps ex_adjustDifficulty ex_updateOakTotals
        ex_Time_Sub Work_Add_def)

lemma ex_ApplyBlock_bad: "\<not> isl (ApplyBlock example_externals example_vc1 example_bad_block)"
proof -
  have hdr: "Header example_bad_block = example_h1_bad" by (simp add: example_bad_block_def)
  have g: "\<not> (ci_Height (Index example_vc1) > 0 \<and> Index example_vc1 \<noteq> ParentIndex (Header example_bad_block))"
    by (simp add: example_vc1_def)
  show ?thesis
    unfolding ApplyBlock_def
    by (simp only: g if_False ex_updated_bad ex_created_bad ex_spent_bad Let_def prod.case hdr
          ex_applyHeader_bad split: prod.splits) (simp add: example_vc1_def)
qed

lemma ApplyBlock_traced_snd: "snd (ApplyBlock_traced ext vc b) = ApplyBlock ext vc b"
  by (simp add: ApplyBlock_traced_def ApplyBlock_def Let_def split: prod.splits sum.splits)

lemma RevertBlock_traced_snd: "snd (RevertBlock_traced ext vc b) = RevertBlock ext vc b"
  by (simp add: RevertBlock_traced_def RevertBlock_def Let_def split: prod.splits)

lemma ApplyBlock_traced_Nil:
  "fst (ApplyBlock_traced ext vc b) = []
   \<longleftrightarrow> ci_Height (Index vc) > 0 \<and> Index vc \<noteq> ParentIndex (Header b)"
  by (simp add: ApplyBlock_traced_def Let_def split: prod.splits sum.splits)

lemma RevertBlock_traced_Nil:
  "fst (RevertBlock_traced ext vc b) = []
   \<longleftrightarrow> Height (Header b) = 0 \<or> Index vc \<noteq> ParentIndex (Header b)"
  by (simp add: RevertBlock_traced_def Let_def split: prod.splits)

text \<open>
  C8, as amended. \<^verbatim>\<open>ApplyBlock\<close> panics with "cannot apply non-child block" exactly when
  the height of the tip of the context is above 0 and the parent index of the block
  differs from the index of the context. \<^verbatim>\<open>RevertBlock\<close> panics with "cannot revert
  genesis block" exactly on a block of height 0, and with "cannot revert non-child
  block" exactly on a block of another height whose parent index differs from the index
  of the context it is given. In each of these fatal cases no step that changes the
  accumulator, the history or the context has been performed: the trace of the run is
  empty, and it is empty in these cases only. The traced runs return what \<^verbatim>\<open>ApplyBlock\<close>
  and \<^verbatim>\<open>RevertBlock\<close> return.
\<close>

theorem fatal_guards:
  "(snd (ApplyBlock_traced ext vc b) = Inl CannotApplyNonChildBlock
      \<longleftrightarrow> ci_Height (Index vc) > 0 \<and> Index vc \<noteq> ParentIndex (Header b))
   \<and> (snd (RevertBlock_traced ext vc b) = Inl CannotRevertGenesisBlock
      \<longleftrightarrow> Height (Header b) = 0)
   \<and> (snd (RevertBlock_traced ext vc b) = Inl CannotRevertNonChildBlock
      \<longleftrightarrow> Height (Header b) \<noteq> 0 \<and> Index vc \<noteq> ParentIndex (Header b))
   \<and> (fst (ApplyBlock_traced ext vc b) = []
      \<longleftrightarrow> snd (ApplyBlock_traced ext vc b) = Inl CannotApplyNonChildBlock)
   \<and> (fst (RevertBlock_traced ext vc b) = []
      \<longleftrightarrow> snd (RevertBlock_traced ext vc b) = Inl CannotRevertGenesisBlock
        \<or> snd (RevertBlock_traced ext vc b) = Inl CannotRevertNonChildBlock)
   \<and> snd (ApplyBlock_traced ext vc b) = ApplyBlock ext vc b
   \<and> snd (RevertBlock_traced ext vc b) = RevertBlock ext vc b"
  unfolding ApplyBlock_traced_Nil RevertBlock_traced_Nil ApplyBlock_traced_snd
    RevertBlock_traced_snd ApplyBlock_non_child RevertBlock_genesis RevertBlock_non_child
  by blast

text \<open>
  On the genesis tip with the id 11: reverting the genesis block and reverting a block
  with another parent panic with an empty trace, reverting the child block calls both
  revert methods, and applying the block with another parent does not panic and has a
  trace. On the tip of height 1 the same block is refused with an empty trace.
\<close>

theorem fatal_guards_witness:
  "RevertBlock_traced example_externals example_vc1 example_genesis_block
     = ([], Inl CannotRevertGenesisBlock)
   \<and> RevertBlock_traced example_externals example_vc1 example_bad_block
     = ([], Inl CannotRevertNonChildBlock)
   \<and> fst (RevertBlock_traced example_externals example_vc1 example_block1)
     = [History_RevertBlock_call, State_RevertBlock_call]
   \<and> fst (ApplyBlock_traced example_externals example_vc1 example_bad_block) \<noteq> []
   \<and> ApplyBlock_traced example_externals example_vc2 example_bad_block
     = ([], Inl CannotApplyNonChildBlock)"
proof -
  have 1: "Height (Header example_genesis_block) = 0"
    by (simp add: example_genesis_block_def example_h0_def)
  have 2: "Height (Header example_bad_block) \<noteq> 0
           \<and> Index example_vc1 \<noteq> ParentIndex (Header example_bad_block)"
    by (simp add: example_bad_block_def example_h1_bad_def example_vc1_def ParentIndex_def)
  have 3: "fst (RevertBlock_traced example_externals example_vc1 example_block1)
           = [History_RevertBlock_call, State_RevertBlock_call]"
    by (simp add: RevertBlock_traced_def Let_def example_block1_def example_h1_def
          example_vc1_def ParentIndex_def split: prod.splits)
  have 4: "\<not> (ci_Height (Index example_vc1) > 0
              \<and> Index example_vc1 \<noteq> ParentIndex (Header example_bad_block))"
    by (simp add: example_vc1_def)
  have 5: "ci_Height (Index example_vc2) > 0
           \<and> Index example_vc2 \<noteq> ParentIndex (Header example_bad_block)"
    by (simp add: example_bad_block_def example_h1_bad_def example_vc2_def ParentIndex_def)
  from fatal_guards [of example_externals example_vc1 example_genesis_block] 1
  have a: "RevertBlock_traced example_externals example_vc1 example_genesis_block
           = ([], Inl CannotRevertGenesisBlock)"
    by (auto simp: prod_eq_iff)
  from fatal_guards [of example_externals example_vc1 example_bad_block] 2 4
  have b: "RevertBlock_traced example_externals example_vc1 example_bad_block
           = ([], Inl CannotRevertNonChildBlock)
         \<and> fst (ApplyBlock_traced example_externals example_vc1 example_bad_block) \<noteq> []"
    by (auto simp: prod_eq_iff)
  from fatal_guards [of example_externals example_vc2 example_bad_block] 5
  have c: "ApplyBlock_traced example_externals example_vc2 example_bad_block
           = ([], Inl CannotApplyNonChildBlock)"
    by (auto simp: prod_eq_iff)
  from a b c 3 show ?thesis by simp
qed

text \<open>
  The claim as stated, with the height of the block, fails on the genesis tip: a block
  of height 1 whose parent id is not the id of the tip is applied without a panic.
\<close>

theorem fatal_guards_counterexample:
  "0 < Height (Header example_bad_block)
   \<and> ParentIndex (Header example_bad_block) \<noteq> Index example_vc1
   \<and> \<not> isl (ApplyBlock example_externals example_vc1 example_bad_block)"
  using ex_ApplyBlock_bad
  by (simp add: example_bad_block_def example_h1_bad_def example_vc1_def ParentIndex_def)

text \<open>
  C10. The guard of \<^verbatim>\<open>ApplyBlock\<close> against a block that is not a child reads the height of
  the tip of the context: on a context whose index has height 0, \<^verbatim>\<open>ApplyBlock\<close> never
  panics on the parent index, whatever parent the block names.
\<close>

theorem ApplyBlock_genesis_tip_unguarded:
  assumes "ci_Height (Index vc) = 0"
  shows "ApplyBlock ext vc b \<noteq> Inl CannotApplyNonChildBlock"
  using assms by (simp add: ApplyBlock_non_child)

text \<open>The block of height 1 with the parent id 999 on the tip with the id 11: it is
  applied, and no panic of any kind is raised.\<close>

theorem ApplyBlock_genesis_tip_unguarded_witness:
  "ci_Height (Index example_vc1) = 0
   \<and> Height (Header example_bad_block) = 1
   \<and> ParentID (Header example_bad_block) \<noteq> ci_ID (Index example_vc1)
   \<and> ApplyBlock example_externals example_vc1 example_bad_block \<noteq> Inl CannotApplyNonChildBlock
   \<and> \<not> isl (ApplyBlock example_externals example_vc1 example_bad_block)"
proof -
  have h: "ci_Height (Index example_vc1) = 0" by (simp add: example_vc1_def)
  from ApplyBlock_genesis_tip_unguarded [OF h] h ex_ApplyBlock_bad show ?thesis
    by (simp add: example_bad_block_def example_h1_bad_def example_vc1_def)
qed

text \<open>
  C9, as amended. The three predicates of a revert update return true exactly for the
  elements whose leaf index is not the ephemeral leaf index and is at least the number
  of leaves of the accumulator of the context of the update.
\<close>

theorem was_removed_rule:
  "(SiacoinElementWasRemoved ru sce \<longleftrightarrow>
      LeafIndex (sce_StateElement sce) \<noteq> EphemeralLeafIndex
      \<and> NumLeaves (State (ru_Context ru)) \<le> LeafIndex (sce_StateElement sce))
   \<and> (SiafundElementWasRemoved ru sfe \<longleftrightarrow>
      LeafIndex (sfe_StateElement sfe) \<noteq> EphemeralLeafIndex
      \<and> NumLeaves (State (ru_Context ru)) \<le> LeafIndex (sfe_StateElement sfe))
   \<and> (FileContractElementWasRemoved ru fce \<longleftrightarrow>
      LeafIndex (fce_StateElement fce) \<noteq> EphemeralLeafIndex
      \<and> NumLeaves (State (ru_Context ru)) \<le> LeafIndex (fce_StateElement fce))"
  by (simp add: SiacoinElementWasRemoved_def SiafundElementWasRemoved_def
        FileContractElementWasRemoved_def)

text \<open>
  The claim as stated fails on an ephemeral element: its leaf index is at least the
  number of leaves of the context, and the predicate returns false.
\<close>

theorem was_removed_counterexample:
  "NumLeaves (State (ru_Context example_ru)) \<le> LeafIndex (sce_StateElement example_ephemeral)
   \<and> \<not> SiacoinElementWasRemoved example_ru example_ephemeral"
  by (simp add: SiacoinElementWasRemoved_def example_ru_def example_ephemeral_def example_vc1_def)

section \<open>Properties of the scratch chain\<close>

text \<open>
  C3. Whenever \<^verbatim>\<open>AppendHeader\<close> or \<^verbatim>\<open>ApplyBlock\<close> of the scratch chain returns an error, the
  chain it leaves (both contexts, the header buffer and the base) is the chain it was
  called on; and whenever the height of the tip of \<^verbatim>\<open>tvc\<close> plus 1, in the 64-bit arithmetic
  of the source, exceeds the height of the tip of \<^verbatim>\<open>hvc\<close>, \<^verbatim>\<open>ApplyBlock\<close> returns the error
  "more blocks than headers" and leaves the chain unchanged.
\<close>

theorem scratch_chain_errors_keep_state:
  "(AppendHeader ext sc h = Inr (sc1, Some err1) \<longrightarrow> sc1 = sc)
   \<and> (ScratchChain_ApplyBlock ext sc b = Inr (sc2, Inl err2) \<longrightarrow> sc2 = sc)
   \<and> (ci_Height (Index (tvc sc)) + 1 > ci_Height (Index (hvc sc)) \<longrightarrow>
        ScratchChain_ApplyBlock ext sc b = Inr (sc, Inl ''more blocks than headers''))"
  by (auto simp: AppendHeader_def ScratchChain_ApplyBlock_def Let_def
        split: option.splits sum.splits if_splits)

text \<open>
  A fresh scratch chain on the genesis tip: a header with the wrong parent is refused,
  and a block is refused because no header has been appended; the chain is unchanged
  both times.
\<close>

theorem scratch_chain_errors_keep_state_witness:
  "AppendHeader example_externals example_sc example_h1_bad = Inr (example_sc, Some ''wrong parent'')
   \<and> ci_Height (Index (tvc example_sc)) + 1 > ci_Height (Index (hvc example_sc))
   \<and> ScratchChain_ApplyBlock example_externals example_sc example_block1
        = Inr (example_sc, Inl ''more blocks than headers'')"
proof -
  have a: "AppendHeader example_externals example_sc example_h1_bad
           = Inr (example_sc, Some ''wrong parent'')"
    by (simp add: AppendHeader_def example_sc_def NewScratchChain_def example_externals_def
          example_h1_bad_def example_vc1_def ParentIndex_def)
  have g: "ci_Height (Index (tvc example_sc)) + 1 > ci_Height (Index (hvc example_sc))"
    by (simp add: example_sc_def NewScratchChain_def example_vc1_def)
  from scratch_chain_errors_keep_state
         [of example_externals example_sc example_h1_bad example_sc "''wrong parent''"
             example_block1 example_sc "''more blocks than headers''"]
       a g
  show ?thesis by simp
qed

end
